theory Spec2Isabelle
  imports Main
begin

section \<open>Go values used by the sflix adapter\<close>

text \<open>
  A Go \<open>error\<close> is a value: \<open>Errorf msg\<close> is \<open>fmt.Errorf(msg)\<close> without a wrapped error,
  \<open>Wrap msg e\<close> is \<open>fmt.Errorf(msg + ": %w", e)\<close>, and \<open>External msg\<close> stands for an error
  produced outside this package (the HTTP client, a reader, a parser, an extractor).
  A Go result pair \<open>(v, err)\<close> is a sum: \<open>Inl err\<close> when \<open>err \<noteq> nil\<close> (the value is then
  nil or ignored by every caller in this file), \<open>Inr v\<close> when \<open>err = nil\<close>.
\<close>

datatype error = Errorf string | Wrap string error | External string

fun Unwrap :: "error \<Rightarrow> error option" where
  "Unwrap (Wrap msg e) = Some e"
| "Unwrap (Errorf msg) = None"
| "Unwrap (External msg) = None"

text \<open>\<open>context.Context\<close>, seen through the value of \<open>ctx.Err()\<close>.\<close>

datatype go_context = Context (ctx_Err: "error option")

datatype MediaType =
  MediaTypeMovie | MediaTypeTV | MediaTypeMovieTV | MediaTypeAnime | MediaTypeManga

datatype StreamType = StreamTypeHLS | StreamTypeMP4

record Media =
  Media_ID :: string
  Media_Title :: string
  Media_Type :: MediaType
  Media_PosterURL :: string
  Media_Year :: int
  Media_Synopsis :: string
  Media_Genres :: "string list"

record MediaDetails =
  MediaDetails_Media :: Media

record providers_Season =
  Season_ID :: string
  Season_Number :: int
  Season_Title :: string

record providers_Episode =
  Episode_ID :: string
  Episode_Number :: int
  Episode_Title :: string
  Episode_Season :: int

record providers_Subtitle =
  Subtitle_Language :: string
  Subtitle_URL :: string

record StreamURL =
  StreamURL_URL :: string
  StreamURL_Quality :: string
  StreamURL_Type :: StreamType
  StreamURL_Referer :: string
  StreamURL_Headers :: "(string \<times> string) list"
  StreamURL_Subtitles :: "providers_Subtitle list"

record types_Episode =
  Ep_ID :: string
  Ep_Number :: int
  Ep_Season :: int
  Ep_Title :: string
  Ep_URL :: string

record MovieInfo =
  Info_ID :: string
  Info_URL :: string
  Info_Episodes :: "types_Episode list"
  Info_Genres :: "string list"
  Info_Type :: string
  Info_Title :: string
  Info_Image :: string
  Info_Description :: string
  Info_Rating :: string
  Info_ReleaseDate :: string
  Info_LastSeason :: int
  Info_TotalEpisodesLastSeason :: int

record EpisodeServer =
  Server_Name :: string
  Server_URL :: string

record Source =
  Source_URL :: string
  Source_Quality :: string
  Source_IsM3U8 :: bool
  Source_Referer :: string

record types_Subtitle =
  Sub_URL :: string
  Sub_Lang :: string

record VideoSources =
  Sources :: "Source list"
  Subtitles :: "types_Subtitle list"

text \<open>
  \<open>interface{}\<close> as returned by \<open>GetInfo\<close> and \<open>GetSources\<close>: the dynamic type is one of the
  two pointer types the adapter ever stores in it; a type assertion is a case distinction.
\<close>

datatype any = AnyMovieInfo MovieInfo | AnyVideoSources VideoSources

section \<open>The HTTP client and the network behind it\<close>

record request =
  req_URL :: string
  req_Header :: "(string \<times> string) list"

text \<open>
  A response: the status code, and what reading \<open>resp.Body\<close> to its end gives (the bytes,
  or the reader's error).
\<close>

record response =
  StatusCode :: int
  Body :: "error + string"

text \<open>
  What the adapter does to the outside world, in order: \<open>Do req\<close> is one call of
  \<open>s.Client.Do(req)\<close>, \<open>Extract name url\<close> one call of
  \<open>extractors.GetExtractor(name).Extract(url)\<close>, and \<open>Invoke server\<close> marks each entry into
  \<open>extractSourcesFromServer\<close> (it has no effect; it is recorded so that the servers a
  resolution attempted can be read off the trace).
\<close>

datatype event = Do request | Extract string string | Invoke EpisodeServer

text \<open>
  The network answers a request, and an extractor answers an embed URL, as a function of
  everything done so far. \<open>extractor\<close> returns Go's pair \<open>(*VideoSources, error)\<close> as it is:
  the package is not part of this repository's files, so nothing is assumed about the
  pointer when the error is nil.
\<close>

record network =
  trace :: "event list"
  respond :: "event list \<Rightarrow> request \<Rightarrow> error + response"
  extractor :: "event list \<Rightarrow> string \<Rightarrow> string \<Rightarrow> VideoSources option \<times> error option"

text \<open>
  The adapter: \<open>type SFlix struct { BaseURL; Client; searchCache; infoCache }\<close>. A
  \<open>sync.Map\<close> used from one caller at a time is a map from keys to values.
\<close>

record SFlix =
  BaseURL :: string
  Client :: network
  searchCache :: "string \<rightharpoonup> Media list"
  infoCache :: "string \<rightharpoonup> MovieInfo"

definition record_event :: "event \<Rightarrow> SFlix \<Rightarrow> SFlix" where
  "record_event e s = s\<lparr>Client := (Client s)\<lparr>trace := trace (Client s) @ [e]\<rparr>\<rparr>"

definition Client_Do :: "request \<Rightarrow> SFlix \<Rightarrow> (error + response) \<times> SFlix" where
  "Client_Do req s =
     (respond (Client s) (trace (Client s)) req, record_event (Do req) s)"

definition Extractor_Extract ::
  "string \<Rightarrow> string \<Rightarrow> SFlix \<Rightarrow> (VideoSources option \<times> error option) \<times> SFlix" where
  "Extractor_Extract name embedURL s =
     (extractor (Client s) (trace (Client s)) name embedURL,
      record_event (Extract name embedURL) s)"

section \<open>Operations without upstream access\<close>

text \<open>
  Every method takes the adapter and returns it with its result, so that what a method
  leaves untouched is a theorem and not a convention.
\<close>

definition Name :: "SFlix \<Rightarrow> string" where
  "Name s = ''sflix''"

definition Type :: "SFlix \<Rightarrow> MediaType" where
  "Type s = MediaTypeMovieTV"

definition GetTrending :: "go_context \<Rightarrow> SFlix \<Rightarrow> (error + Media list) \<times> SFlix" where
  "GetTrending ctx s = (Inl (Errorf ''not implemented''), s)"

definition GetRecent :: "go_context \<Rightarrow> SFlix \<Rightarrow> (error + Media list) \<times> SFlix" where
  "GetRecent ctx s = (Inl (Errorf ''not implemented''), s)"

definition HealthCheck :: "go_context \<Rightarrow> SFlix \<Rightarrow> error option \<times> SFlix" where
  "HealthCheck ctx s = (None, s)"

section \<open>Go's string functions, on bytes\<close>

text \<open>
  A Go string is a sequence of bytes, a \<open>string\<close> here. These are the functions of package
  \<open>strings\<close> whose result depends on the bytes alone. The separator and the pattern are
  non-empty at every call in the adapter.
\<close>

definition HasPrefix :: "string \<Rightarrow> string \<Rightarrow> bool" where
  "HasPrefix s pre = (take (length pre) s = pre)"

definition HasSuffix :: "string \<Rightarrow> string \<Rightarrow> bool" where
  "HasSuffix s suf = (length suf \<le> length s \<and> drop (length s - length suf) s = suf)"

fun Contains :: "string \<Rightarrow> string \<Rightarrow> bool" where
  "Contains [] sub = (sub = [])"
| "Contains (c # cs) sub = (HasPrefix (c # cs) sub \<or> Contains cs sub)"

definition TrimPrefix :: "string \<Rightarrow> string \<Rightarrow> string" where
  "TrimPrefix s pre = (if HasPrefix s pre then drop (length pre) s else s)"

definition TrimSuffix :: "string \<Rightarrow> string \<Rightarrow> string" where
  "TrimSuffix s suf = (if HasSuffix s suf then take (length s - length suf) s else s)"

text \<open>
  \<open>strings.Split(s, sep)\<close>: \<open>Split_from sep cur s\<close> has read \<open>cur\<close> since the last separator
  and still has \<open>s\<close> to read. The result always has at least one element.
\<close>

function Split_from :: "string \<Rightarrow> string \<Rightarrow> string \<Rightarrow> string list" where
  "Split_from sep cur [] = [cur]"
| "Split_from sep cur (c # cs) =
     (if sep \<noteq> [] \<and> HasPrefix (c # cs) sep
      then cur # Split_from sep [] (drop (length sep) (c # cs))
      else Split_from sep (cur @ [c]) cs)"
  by pat_completeness auto
termination
  by (relation "measure (\<lambda>(sep, cur, s). length s)") auto

definition Split :: "string \<Rightarrow> string \<Rightarrow> string list" where
  "Split s sep = Split_from sep [] s"

text \<open>\<open>strings.Replace(s, old, new, n)\<close> for \<open>n \<ge> 0\<close>, and \<open>strings.ReplaceAll\<close>.\<close>

function Replace_from :: "string \<Rightarrow> string \<Rightarrow> nat option \<Rightarrow> string \<Rightarrow> string" where
  "Replace_from old new n [] = []"
| "Replace_from old new n (c # cs) =
     (if n \<noteq> Some 0 \<and> old \<noteq> [] \<and> HasPrefix (c # cs) old
      then new @ Replace_from old new (map_option (\<lambda>k. k - 1) n) (drop (length old) (c # cs))
      else c # Replace_from old new n cs)"
  by pat_completeness auto
termination
  by (relation "measure (\<lambda>(old, new, n, s). length s)") auto

definition Replace :: "string \<Rightarrow> string \<Rightarrow> string \<Rightarrow> nat \<Rightarrow> string" where
  "Replace s old new n = Replace_from old new (Some n) s"

definition ReplaceAll :: "string \<Rightarrow> string \<Rightarrow> string \<Rightarrow> string" where
  "ReplaceAll s old new = Replace_from old new None s"

section \<open>Go's integers as text\<close>

text \<open>
  A Go \<open>int\<close> is 64 bits wide; its values are the integers from \<open>MinInt\<close> to \<open>MaxInt\<close>.
  \<open>Itoa n\<close> is what \<open>fmt.Sprintf("%d", n)\<close> prints. \<open>Atoi\<close> is \<open>strconv.Atoi\<close>: an optional
  sign, then one or more decimal digits, and the value must fit an \<open>int\<close>.
\<close>

definition MaxInt :: int where
  "MaxInt = 2 ^ 63 - 1"

definition MinInt :: int where
  "MinInt = - (2 ^ 63)"

definition digit_char :: "nat \<Rightarrow> char" where
  "digit_char d = ''0123456789'' ! d"

definition is_digit :: "char \<Rightarrow> bool" where
  "is_digit c = (c \<in> set ''0123456789'')"

definition digit_val :: "char \<Rightarrow> nat" where
  "digit_val c = of_char c - 48"

fun digits :: "nat \<Rightarrow> string" where
  "digits n = (if n < 10 then [digit_char n] else digits (n div 10) @ [digit_char (n mod 10)])"

declare digits.simps [simp del]

definition Itoa :: "int \<Rightarrow> string" where
  "Itoa n = (if n < 0 then CHR ''-'' # digits (nat (- n)) else digits (nat n))"

definition digits_val :: "string \<Rightarrow> nat" where
  "digits_val ds = foldl (\<lambda>n c. n * 10 + digit_val c) 0 ds"

definition Atoi :: "string \<Rightarrow> error + int" where
  "Atoi s =
     (let neg = (s \<noteq> [] \<and> hd s = CHR ''-'');
          ds = (if s \<noteq> [] \<and> (hd s = CHR ''-'' \<or> hd s = CHR ''+'') then tl s else s)
      in if ds = [] \<or> \<not> list_all is_digit ds then Inl (External ''invalid syntax'')
         else let n = (if neg then - int (digits_val ds) else int (digits_val ds))
              in if n < MinInt \<or> MaxInt < n then Inl (External ''value out of range'')
                 else Inr n)"

section \<open>Libraries outside the repository\<close>

text \<open>
  What the adapter calls and this repository does not define is a parameter of the model:
  \<^item> \<open>NewRequest url\<close>: the error of \<open>http.NewRequest("GET", url, nil)\<close>, if any;
  \<^item> \<open>NewDocument\<close>, \<open>Find\<close>, \<open>Text\<close>, \<open>Attr\<close>: goquery. A selection is a list of nodes of a
    type \<open>'n\<close>; \<open>Attr\<close> gives \<open>None\<close> where goquery's second result is false;
  \<^item> \<open>Unmarshal_Link body\<close>: \<open>json.Unmarshal\<close> into \<open>struct { Link string `json:"link"` }\<close>;
  \<^item> \<open>TrimSpace\<close>, \<open>ToLower\<close>, \<open>EqualFold\<close>: the functions of package \<open>strings\<close> that
    depend on Unicode's tables;
  \<^item> \<open>QualityAuto\<close>: the constant \<open>providers.QualityAuto\<close>.
\<close>

record 'n env =
  NewRequest :: "string \<Rightarrow> error option"
  NewDocument :: "string \<Rightarrow> error + 'n list"
  Find :: "string \<Rightarrow> 'n list \<Rightarrow> 'n list"
  Text :: "'n list \<Rightarrow> string"
  Attr :: "string \<Rightarrow> 'n list \<Rightarrow> string option"
  Unmarshal_Link :: "string \<Rightarrow> error + string"
  TrimSpace :: "string \<Rightarrow> string"
  ToLower :: "string \<Rightarrow> string"
  EqualFold :: "string \<Rightarrow> string \<Rightarrow> bool"
  QualityAuto :: string

text \<open>\<open>goquery.NewDocumentFromReader(resp.Body)\<close>: reading the body may fail.\<close>

definition NewDocumentFromReader :: "'n env \<Rightarrow> error + string \<Rightarrow> error + 'n list" where
  "NewDocumentFromReader E body = (case body of Inl err \<Rightarrow> Inl err | Inr b \<Rightarrow> NewDocument E b)"

definition UserAgent :: string where
  "UserAgent = ''Mozilla/5.0 (Windows NT 10.0; Win64; x64) AppleWebKit/537.36''"

text \<open>The headers set on a page request, and on an \<open>/ajax/\<close> request.\<close>

definition page_request :: "SFlix \<Rightarrow> string \<Rightarrow> request" where
  "page_request s url =
     \<lparr>req_URL = url, req_Header = [(''User-Agent'', UserAgent), (''Referer'', BaseURL s)]\<rparr>"

definition ajax_request :: "SFlix \<Rightarrow> string \<Rightarrow> request" where
  "ajax_request s url =
     \<lparr>req_URL = url,
      req_Header = [(''User-Agent'', UserAgent), (''Referer'', BaseURL s),
                    (''X-Requested-With'', ''XMLHttpRequest'')]\<rparr>"

section \<open>The resolution pipeline\<close>

text \<open>
  \<open>FetchEpisodeServersWithMediaID\<close>, the callback given to \<open>Each\<close> first: one \<open>li\<close> of the
  server list. The callback stores the watch URL in the new server's \<open>URL\<close> field and then
  overwrites it with the \<open>data-id\<close>.
\<close>

definition server_of_item ::
  "'n env \<Rightarrow> SFlix \<Rightarrow> string \<Rightarrow> bool \<Rightarrow> 'n list \<Rightarrow> EpisodeServer list \<Rightarrow> EpisodeServer list" where
  "server_of_item E s mediaID isMovie sel servers =
     (case Attr E ''data-id'' (Find E ''a'' sel) of
        None \<Rightarrow> servers
      | Some dataID \<Rightarrow>
          (let serverName = TrimSpace E (Text E (Find E ''a span'' sel))
           in if serverName = [] then servers
              else
                (let urlPattern = (if isMovie then ''/movie/'' else ''/tv/'');
                     replacement = (if isMovie then ''/watch-movie/'' else ''/watch-tv/'');
                     serverURL = Replace (BaseURL s @ ''/'' @ mediaID @ ''.'' @ dataID)
                                   urlPattern replacement 1;
                     server = \<lparr>Server_Name = ToLower E serverName, Server_URL = serverURL\<rparr>
                 in servers @ [server\<lparr>Server_URL := dataID\<rparr>])))"

fun server_items ::
  "'n env \<Rightarrow> SFlix \<Rightarrow> string \<Rightarrow> bool \<Rightarrow> 'n list \<Rightarrow> EpisodeServer list \<Rightarrow> EpisodeServer list" where
  "server_items E s mediaID isMovie [] servers = servers"
| "server_items E s mediaID isMovie (n # ns) servers =
     server_items E s mediaID isMovie ns (server_of_item E s mediaID isMovie [n] servers)"

definition FetchEpisodeServersWithMediaID ::
  "'n env \<Rightarrow> string \<Rightarrow> string \<Rightarrow> SFlix \<Rightarrow> (error + EpisodeServer list) \<times> SFlix" where
  "FetchEpisodeServersWithMediaID E episodeID mediaID s =
     (let isMovie = Contains mediaID ''movie'';
          endpoint = (if isMovie then BaseURL s @ ''/ajax/episode/list/'' @ episodeID
                      else BaseURL s @ ''/ajax/episode/servers/'' @ episodeID)
      in case NewRequest E endpoint of
           Some err \<Rightarrow> (Inl (Wrap ''failed to create servers request'' err), s)
         | None \<Rightarrow>
             (case Client_Do (ajax_request s endpoint) s of
                (Inl err, s1) \<Rightarrow> (Inl (Wrap ''failed to fetch servers'' err), s1)
              | (Inr resp, s1) \<Rightarrow>
                  (case Body resp of
                     Inl err \<Rightarrow> (Inl (Wrap ''failed to read servers response'' err), s1)
                   | Inr body \<Rightarrow>
                       (case NewDocument E body of
                          Inl err \<Rightarrow> (Inl (Wrap ''failed to parse servers HTML'' err), s1)
                        | Inr doc \<Rightarrow>
                            (Inr (server_items E s1 mediaID isMovie
                                    (Find E ''.ulclear > li'' doc) []), s1)))))"

definition GetServers ::
  "'n env \<Rightarrow> string \<Rightarrow> SFlix \<Rightarrow> (error + EpisodeServer list) \<times> SFlix" where
  "GetServers E episodeID s =
     (let parts = Split episodeID ''|''
      in if length parts = 2
         then FetchEpisodeServersWithMediaID E (parts ! 0) (parts ! 1) s
         else FetchEpisodeServersWithMediaID E episodeID [] s)"

text \<open>
  \<open>extractSourcesFromServer\<close>. The result is \<open>Inl err\<close> for \<open>(nil, err)\<close> and \<open>Inr p\<close> for
  \<open>(p, nil)\<close>, where \<open>p\<close> is the pointer the extractor returned (\<open>None\<close> is nil).
\<close>

definition extractSourcesFromServer ::
  "'n env \<Rightarrow> EpisodeServer \<Rightarrow> SFlix \<Rightarrow> (error + VideoSources option) \<times> SFlix" where
  "extractSourcesFromServer E server s0 =
     (let s = record_event (Invoke server) s0;
          serverID = Server_URL server;
          sourcesURL = BaseURL s @ ''/ajax/episode/sources/'' @ serverID
      in case NewRequest E sourcesURL of
           Some err \<Rightarrow> (Inl (Wrap ''failed to create sources request'' err), s)
         | None \<Rightarrow>
             (case Client_Do (ajax_request s sourcesURL) s of
                (Inl err, s1) \<Rightarrow> (Inl (Wrap ''failed to fetch embed URL'' err), s1)
              | (Inr resp, s1) \<Rightarrow>
                  (case Body resp of
                     Inl err \<Rightarrow> (Inl (Wrap ''failed to read sources response'' err), s1)
                   | Inr body \<Rightarrow>
                       (case Unmarshal_Link E body of
                          Inl err \<Rightarrow> (Inl (Wrap ''failed to parse sources JSON'' err), s1)
                        | Inr link \<Rightarrow>
                            if link = []
                            then (Inl (Errorf ''no embed link found in response''), s1)
                            else
                              (case Extractor_Extract (Server_Name server) link s1 of
                                 ((extracted, Some err), s2) \<Rightarrow>
                                   (Inl (Wrap (''failed to extract from embed URL '' @ link) err), s2)
                               | ((extracted, None), s2) \<Rightarrow> (Inr extracted, s2))))))"

text \<open>
  The outcome of a call that can also panic: \<open>len(sources.Sources)\<close> dereferences the
  pointer an extractor returned with a nil error.
\<close>

datatype 'a result = Ok 'a | Err error | Panic string

text \<open>
  The loop \<open>for _, server := range servers\<close> of \<open>FetchEpisodeSourcesWithMediaID\<close> with its
  variable \<open>lastErr\<close>; the equation for the empty list is the code after the loop.
\<close>

fun try_servers ::
  "'n env \<Rightarrow> EpisodeServer list \<Rightarrow> error option \<Rightarrow> SFlix \<Rightarrow> VideoSources result \<times> SFlix" where
  "try_servers E [] lastErr s =
     (case lastErr of
        Some err \<Rightarrow> (Err (Wrap ''failed to extract sources from all servers'' err), s)
      | None \<Rightarrow> (Ok \<lparr>Sources = [], Subtitles = []\<rparr>, s))"
| "try_servers E (server # rest) lastErr s =
     (case extractSourcesFromServer E server s of
        (Inl err, s1) \<Rightarrow> try_servers E rest (Some err) s1
      | (Inr None, s1) \<Rightarrow> (Panic ''nil pointer dereference'', s1)
      | (Inr (Some sources), s1) \<Rightarrow>
          if length (Sources sources) > 0 then (Ok sources, s1)
          else try_servers E rest lastErr s1)"

definition FetchEpisodeSourcesWithMediaID ::
  "'n env \<Rightarrow> string \<Rightarrow> string \<Rightarrow> SFlix \<Rightarrow> VideoSources result \<times> SFlix" where
  "FetchEpisodeSourcesWithMediaID E episodeID mediaID s =
     (case FetchEpisodeServersWithMediaID E episodeID mediaID s of
        (Inl err, s1) \<Rightarrow> (Err (Wrap ''failed to fetch servers'' err), s1)
      | (Inr servers, s1) \<Rightarrow>
          if length servers = 0 then (Ok \<lparr>Sources = [], Subtitles = []\<rparr>, s1)
          else try_servers E servers None s1)"

definition GetSources :: "'n env \<Rightarrow> string \<Rightarrow> SFlix \<Rightarrow> any result \<times> SFlix" where
  "GetSources E episodeID s =
     (let parts = Split episodeID ''|'';
          actualEpisodeID = (if length parts = 2 then parts ! 0 else episodeID);
          mediaID = (if length parts = 2 then parts ! 1 else [])
      in case FetchEpisodeSourcesWithMediaID E actualEpisodeID mediaID s of
           (Ok v, s1) \<Rightarrow> (Ok (AnyVideoSources v), s1)
         | (Err err, s1) \<Rightarrow> (Err err, s1)
         | (Panic msg, s1) \<Rightarrow> (Panic msg, s1))"

text \<open>
  The selection loop of \<open>GetStreamURL\<close>: \<open>Some src\<close> when it left with \<open>found = true\<close> and
  \<open>selectedSource = src\<close>, \<open>None\<close> when it ran to the end.
\<close>

fun select_quality :: "'n env \<Rightarrow> Source list \<Rightarrow> string \<Rightarrow> Source option" where
  "select_quality E [] targetQuality = None"
| "select_quality E (src # rest) targetQuality =
     (if EqualFold E (Source_Quality src) targetQuality then Some src
      else select_quality E rest targetQuality)"

definition GetStreamURL ::
  "'n env \<Rightarrow> go_context \<Rightarrow> string \<Rightarrow> string \<Rightarrow> SFlix \<Rightarrow> StreamURL result \<times> SFlix" where
  "GetStreamURL E ctx episodeID quality s =
     (case GetSources E episodeID s of
        (Err err, s1) \<Rightarrow> (Err err, s1)
      | (Panic msg, s1) \<Rightarrow> (Panic msg, s1)
      | (Ok (AnyMovieInfo i), s1) \<Rightarrow> (Err (Errorf ''invalid source type''), s1)
      | (Ok (AnyVideoSources v), s1) \<Rightarrow>
          if length (Sources v) = 0 then (Err (Errorf ''no sources found''), s1)
          else
            (let targetQuality = (if quality = QualityAuto E then ''auto'' else quality);
                 selectedSource =
                   (case select_quality E (Sources v) targetQuality of
                      Some src \<Rightarrow> src
                    | None \<Rightarrow> Sources v ! 0);
                 streamType = (if \<not> Source_IsM3U8 selectedSource then StreamTypeMP4
                               else StreamTypeHLS)
             in (Ok \<lparr>StreamURL_URL = Source_URL selectedSource,
                     StreamURL_Quality = Source_Quality selectedSource,
                     StreamURL_Type = streamType,
                     StreamURL_Referer = Source_Referer selectedSource,
                     StreamURL_Headers = [(''Referer'', Source_Referer selectedSource)],
                     StreamURL_Subtitles =
                       map (\<lambda>sub. \<lparr>Subtitle_Language = Sub_Lang sub, Subtitle_URL = Sub_URL sub\<rparr>)
                         (Subtitles v)\<rparr>, s1)))"

definition GetAvailableQualities ::
  "'n env \<Rightarrow> go_context \<Rightarrow> string \<Rightarrow> SFlix \<Rightarrow> string list result \<times> SFlix" where
  "GetAvailableQualities E ctx episodeID s =
     (case GetSources E episodeID s of
        (Err err, s1) \<Rightarrow> (Err err, s1)
      | (Panic msg, s1) \<Rightarrow> (Panic msg, s1)
      | (Ok (AnyVideoSources v), s1) \<Rightarrow> (Ok (map Source_Quality (Sources v)), s1)
      | (Ok (AnyMovieInfo i), s1) \<Rightarrow> (Ok [], s1))"

text \<open>
  For stating what the pipeline does: the results the servers give when each is asked in
  turn, none skipped, and the servers whose extraction was entered according to the trace.
\<close>

fun attempt_each ::
  "'n env \<Rightarrow> EpisodeServer list \<Rightarrow> SFlix \<Rightarrow> (error + VideoSources option) list \<times> SFlix" where
  "attempt_each E [] s = ([], s)"
| "attempt_each E (server # rest) s =
     (case extractSourcesFromServer E server s of
        (r, s1) \<Rightarrow> (case attempt_each E rest s1 of (rs, s2) \<Rightarrow> (r # rs, s2)))"

fun invoked_of :: "event list \<Rightarrow> EpisodeServer list" where
  "invoked_of [] = []"
| "invoked_of (Invoke server # evs) = server # invoked_of evs"
| "invoked_of (Do req # evs) = invoked_of evs"
| "invoked_of (Extract name url # evs) = invoked_of evs"

definition invoked :: "SFlix \<Rightarrow> EpisodeServer list" where
  "invoked s = invoked_of (trace (Client s))"

section \<open>Metadata: info pages and search\<close>

text \<open>
  \<open>fetchEpisodeList\<close>, innermost callback first. \<open>episode_items\<close> is
  \<open>epDoc.Find(".eps-item").Each\<close> with its index \<open>epIdx\<close>; \<open>season_item\<close> is the callback given
  to \<open>seasonDoc.Find(".ss-item").Each\<close>, which makes one request for each season and gives
  up on that season, silently, at the first error.
\<close>

fun episode_items ::
  "'n env \<Rightarrow> int \<Rightarrow> nat \<Rightarrow> 'n list \<Rightarrow> types_Episode list \<Rightarrow> types_Episode list" where
  "episode_items E seasonNumber epIdx [] episodes = episodes"
| "episode_items E seasonNumber epIdx (n # ns) episodes =
     episode_items E seasonNumber (Suc epIdx) ns
       (case Attr E ''data-id'' [n] of
          None \<Rightarrow> episodes
        | Some epID \<Rightarrow>
            (let epNumberText =
                   TrimSuffix
                     (TrimSpace E (TrimPrefix (Text E (Find E ''.episode-number'' [n])) ''Episode ''))
                     '':'';
                 epNumber = (case Atoi epNumberText of
                               Inr parsedNum \<Rightarrow> parsedNum
                             | Inl err \<Rightarrow> int epIdx + 1);
                 epTitle = TrimSpace E (Text E (Find E ''.film-name a'' [n]))
             in episodes @ [\<lparr>Ep_ID = epID, Ep_Number = epNumber, Ep_Season = seasonNumber,
                             Ep_Title = epTitle, Ep_URL = []\<rparr>]))"

definition season_item ::
  "'n env \<Rightarrow> nat \<Rightarrow> 'n list \<Rightarrow> types_Episode list \<Rightarrow> SFlix \<Rightarrow> types_Episode list \<times> SFlix" where
  "season_item E seasonIdx seasonSel episodes s =
     (case Attr E ''data-id'' seasonSel of
        None \<Rightarrow> (episodes, s)
      | Some seasonID \<Rightarrow>
          (let seasonText = TrimSpace E (Text E seasonSel);
               parts = Split seasonText ''Season '';
               seasonNumber =
                 (if Contains seasonText ''Season '' \<and> length parts > 1
                  then (case Atoi (TrimSpace E (parts ! 1)) of
                          Inr num \<Rightarrow> num
                        | Inl err \<Rightarrow> int seasonIdx + 1)
                  else int seasonIdx + 1);
               episodeURL = BaseURL s @ ''/ajax/season/episodes/'' @ seasonID
           in case NewRequest E episodeURL of
                Some err \<Rightarrow> (episodes, s)
              | None \<Rightarrow>
                  (case Client_Do (ajax_request s episodeURL) s of
                     (Inl err, s1) \<Rightarrow> (episodes, s1)
                   | (Inr epResp, s1) \<Rightarrow>
                       (case Body epResp of
                          Inl err \<Rightarrow> (episodes, s1)
                        | Inr epBody \<Rightarrow>
                            (case NewDocument E epBody of
                               Inl err \<Rightarrow> (episodes, s1)
                             | Inr epDoc \<Rightarrow>
                                 (episode_items E seasonNumber 0 (Find E ''.eps-item'' epDoc)
                                    episodes, s1))))))"

fun season_items ::
  "'n env \<Rightarrow> nat \<Rightarrow> 'n list \<Rightarrow> types_Episode list \<Rightarrow> SFlix \<Rightarrow> types_Episode list \<times> SFlix" where
  "season_items E seasonIdx [] episodes s = (episodes, s)"
| "season_items E seasonIdx (n # ns) episodes s =
     (case season_item E seasonIdx [n] episodes s of
        (episodes1, s1) \<Rightarrow> season_items E (Suc seasonIdx) ns episodes1 s1)"

definition fetchEpisodeList ::
  "'n env \<Rightarrow> string \<Rightarrow> SFlix \<Rightarrow> (error + types_Episode list) \<times> SFlix" where
  "fetchEpisodeList E showID s =
     (let seasonURL = BaseURL s @ ''/ajax/season/list/'' @ showID
      in case NewRequest E seasonURL of
           Some err \<Rightarrow> (Inl (Wrap ''failed to create season list request'' err), s)
         | None \<Rightarrow>
             (case Client_Do (ajax_request s seasonURL) s of
                (Inl err, s1) \<Rightarrow> (Inl (Wrap ''failed to fetch season list'' err), s1)
              | (Inr resp, s1) \<Rightarrow>
                  (case Body resp of
                     Inl err \<Rightarrow> (Inl (Wrap ''failed to read season list response'' err), s1)
                   | Inr seasonBody \<Rightarrow>
                       (case NewDocument E seasonBody of
                          Inl err \<Rightarrow> (Inl (Wrap ''failed to parse season HTML'' err), s1)
                        | Inr seasonDoc \<Rightarrow>
                            (case season_items E 0 (Find E ''.ss-item'' seasonDoc) [] s1 of
                               (episodes, s2) \<Rightarrow> (Inr episodes, s2))))))"

text \<open>
  \<open>GetInfo\<close>, in three parts. \<open>info_page\<close> is the code from the choice of the URL to the
  response that is parsed: the page for the id, and, when that request fails or is not
  answered with status 200, the page under \<open>/tv/\<close>. It returns the response with the final
  \<open>mediaType\<close> and \<open>infoURL\<close>.
\<close>

definition info_page ::
  "'n env \<Rightarrow> string \<Rightarrow> SFlix \<Rightarrow> (error + response \<times> string \<times> string) \<times> SFlix" where
  "info_page E id' s =
     (let mediaType = (if HasPrefix id' ''movie/'' then ''movie''
                       else if HasPrefix id' ''tv/'' then ''tv'' else ''movie'');
          infoURL = (if HasPrefix id' ''movie/'' then BaseURL s @ ''/'' @ id'
                     else if HasPrefix id' ''tv/'' then BaseURL s @ ''/'' @ id'
                     else BaseURL s @ ''/movie/'' @ id')
      in case NewRequest E infoURL of
           Some err \<Rightarrow> (Inl (Wrap ''failed to create request'' err), s)
         | None \<Rightarrow>
             (case Client_Do (page_request s infoURL) s of
                (r, s1) \<Rightarrow>
                  if (case r of Inl err \<Rightarrow> True | Inr resp \<Rightarrow> StatusCode resp \<noteq> 200)
                  then
                    (let tvURL = BaseURL s @ ''/tv/'' @ id'
                     in case NewRequest E tvURL of
                          Some err \<Rightarrow> (Inl (Wrap ''failed to create request'' err), s1)
                        | None \<Rightarrow>
                            (case Client_Do (page_request s tvURL) s1 of
                               (Inl err, s2) \<Rightarrow> (Inl (Wrap ''failed to fetch info'' err), s2)
                             | (Inr resp, s2) \<Rightarrow> (Inr (resp, ''tv'', tvURL), s2)))
                  else
                    (case r of
                       Inr resp \<Rightarrow> (Inr (resp, mediaType, infoURL), s1)
                     | Inl err \<Rightarrow> (Inl err, s1))))"

text \<open>The two passes over \<open>div.elements .row-line\<close>, and the links of the genre row.\<close>

fun release_rows :: "'n env \<Rightarrow> 'n list \<Rightarrow> string \<Rightarrow> string" where
  "release_rows E [] releaseDate = releaseDate"
| "release_rows E (n # ns) releaseDate =
     release_rows E ns
       (let text = Text E [n]; parts = Split text ''Released:''
        in if Contains text ''Released:'' \<and> length parts > 1 then TrimSpace E (parts ! 1)
           else releaseDate)"

fun genre_links :: "'n env \<Rightarrow> 'n list \<Rightarrow> string list \<Rightarrow> string list" where
  "genre_links E [] genres = genres"
| "genre_links E (n # ns) genres =
     genre_links E ns
       (let genre = TrimSpace E (Text E [n])
        in if genre \<noteq> [] \<and> \<not> Contains (ToLower E genre) ''http'' then genres @ [genre]
           else genres)"

fun genre_rows :: "'n env \<Rightarrow> 'n list \<Rightarrow> string list \<Rightarrow> string list" where
  "genre_rows E [] genres = genres"
| "genre_rows E (n # ns) genres =
     genre_rows E ns
       (if Contains (Text E [n]) ''Genre:'' then genre_links E (Find E ''a'' [n]) genres
        else genres)"

text \<open>The loop computing \<open>lastSeason\<close> and \<open>episodeCountInLastSeason\<close>.\<close>

fun last_season :: "types_Episode list \<Rightarrow> int \<Rightarrow> int \<Rightarrow> int \<times> int" where
  "last_season [] lastSeason episodeCount = (lastSeason, episodeCount)"
| "last_season (ep # eps) lastSeason episodeCount =
     (if Ep_Season ep > lastSeason then last_season eps (Ep_Season ep) 1
      else if Ep_Season ep = lastSeason then last_season eps lastSeason (episodeCount + 1)
      else last_season eps lastSeason episodeCount)"

text \<open>\<open>build_info\<close>: from \<open>cleanMediaID\<close> to the finished \<open>info\<close>, before it is stored.\<close>

definition build_info ::
  "'n env \<Rightarrow> string \<Rightarrow> string \<Rightarrow> string \<Rightarrow> 'n list \<Rightarrow> SFlix \<Rightarrow> MovieInfo \<times> SFlix" where
  "build_info E id' mediaType infoURL doc s =
     (let cleanMediaID = (if \<not> Contains id' ''/'' then mediaType @ ''/'' @ id' else id');
          title = TrimSpace E (Text E (Find E ''h2.heading-name'' doc));
          image = (case Attr E ''src'' (Find E ''img.film-poster-img'' doc) of
                     Some img \<Rightarrow> img | None \<Rightarrow> []);
          description = TrimSpace E (Text E (Find E ''div.description'' doc));
          ratingText = TrimSpace E (Text E (Find E ''span.imdb'' doc));
          rating = (if ratingText \<noteq> [] then TrimSpace E (TrimPrefix ratingText ''IMDB:'') else []);
          releaseDate = release_rows E (Find E ''div.elements .row-line'' doc) [];
          genres = genre_rows E (Find E ''div.elements .row-line'' doc) [];
          dataID = (case Attr E ''data-id'' (Find E ''.detail_page-watch'' doc) of
                      Some d \<Rightarrow> d
                    | None \<Rightarrow>
                        (case Attr E ''data-id'' (Find E ''#watch'' doc) of
                           Some d \<Rightarrow> d | None \<Rightarrow> []));
          info = \<lparr>Info_ID = cleanMediaID, Info_URL = infoURL, Info_Episodes = [],
                  Info_Genres = genres, Info_Type = mediaType, Info_Title = title,
                  Info_Image = image, Info_Description = description, Info_Rating = rating,
                  Info_ReleaseDate = releaseDate, Info_LastSeason = 0,
                  Info_TotalEpisodesLastSeason = 0\<rparr>
      in if mediaType = ''movie'' \<and> dataID \<noteq> []
         then (info\<lparr>Info_Episodes :=
                      [\<lparr>Ep_ID = dataID, Ep_Number = 1, Ep_Season = 0, Ep_Title = title,
                        Ep_URL = cleanMediaID\<rparr>]\<rparr>, s)
         else if mediaType = ''tv'' \<and> dataID \<noteq> []
         then
           (case fetchEpisodeList E dataID s of
              (Inr episodes, s1) \<Rightarrow>
                if length episodes > 0
                then
                  (let episodes1 = map (\<lambda>ep. ep\<lparr>Ep_URL := cleanMediaID\<rparr>) episodes;
                       counted = last_season episodes1 0 0
                   in (info\<lparr>Info_Episodes := episodes1, Info_LastSeason := fst counted,
                            Info_TotalEpisodesLastSeason := snd counted\<rparr>, s1))
                else (info, s1)
            | (Inl err, s1) \<Rightarrow> (info, s1))
         else (info, s))"

definition GetInfo :: "'n env \<Rightarrow> string \<Rightarrow> SFlix \<Rightarrow> (error + any) \<times> SFlix" where
  "GetInfo E id' s =
     (case infoCache s id' of
        Some cached \<Rightarrow> (Inr (AnyMovieInfo cached), s)
      | None \<Rightarrow>
          (case info_page E id' s of
             (Inl err, s1) \<Rightarrow> (Inl err, s1)
           | (Inr (resp, mediaType, infoURL), s1) \<Rightarrow>
               (case NewDocumentFromReader E (Body resp) of
                  Inl err \<Rightarrow> (Inl (Wrap ''failed to parse HTML'' err), s1)
                | Inr doc \<Rightarrow>
                    (case build_info E id' mediaType infoURL doc s1 of
                       (info, s2) \<Rightarrow>
                         (Inr (AnyMovieInfo info),
                          s2\<lparr>infoCache := (infoCache s2)(id' \<mapsto> info)\<rparr>)))))"

definition GetMediaDetails ::
  "'n env \<Rightarrow> go_context \<Rightarrow> string \<Rightarrow> SFlix \<Rightarrow> (error + MediaDetails) \<times> SFlix" where
  "GetMediaDetails E ctx id' s =
     (case GetInfo E id' s of
        (Inl err, s1) \<Rightarrow> (Inl err, s1)
      | (Inr (AnyVideoSources v), s1) \<Rightarrow> (Inl (Errorf ''invalid info type''), s1)
      | (Inr (AnyMovieInfo movieInfo), s1) \<Rightarrow>
          (Inr \<lparr>MediaDetails_Media =
                  \<lparr>Media_ID = id', Media_Title = Info_Title movieInfo,
                   Media_Type = (if Info_Type movieInfo = ''tv'' then MediaTypeTV
                                 else MediaTypeMovie),
                   Media_PosterURL = Info_Image movieInfo, Media_Year = 0,
                   Media_Synopsis = Info_Description movieInfo,
                   Media_Genres = Info_Genres movieInfo\<rparr>\<rparr>, s1))"

text \<open>\<open>Search\<close>: the year of one result, one result, and the method.\<close>

fun year_items :: "'n env \<Rightarrow> 'n list \<Rightarrow> int \<Rightarrow> int" where
  "year_items E [] year = year"
| "year_items E (n # ns) year =
     year_items E ns
       (let text = TrimSpace E (Text E [n])
        in case Atoi text of
             Inr y \<Rightarrow> if length text = 4 then y else year
           | Inl err \<Rightarrow> year)"

definition search_item :: "'n env \<Rightarrow> 'n list \<Rightarrow> Media list \<Rightarrow> Media list" where
  "search_item E sel results =
     (let title = Text E (Find E ''h2.film-name a'' sel);
          href = (case Attr E ''href'' (Find E ''h2.film-name a'' sel) of
                    Some h \<Rightarrow> h | None \<Rightarrow> []);
          image = (case Attr E ''data-src'' (Find E ''img'' sel) of Some i \<Rightarrow> i | None \<Rightarrow> []);
          year = year_items E (Find E ''.fdi-item'' sel) 0
      in if href \<noteq> []
         then
           (let parts = Split (TrimPrefix href ''/'') ''/'';
                mediaType = (if length parts \<ge> 2 \<and> parts ! 0 = ''tv'' then MediaTypeTV
                             else MediaTypeMovie);
                id' = (if length parts \<ge> 2 then parts ! 0 @ ''/'' @ parts ! 1
                      else if length parts = 1 then parts ! 0 else [])
            in results @ [\<lparr>Media_ID = id', Media_Title = TrimSpace E title, Media_Type = mediaType,
                            Media_PosterURL = image, Media_Year = year, Media_Synopsis = [],
                            Media_Genres = []\<rparr>])
         else results)"

fun search_items :: "'n env \<Rightarrow> 'n list \<Rightarrow> Media list \<Rightarrow> Media list" where
  "search_items E [] results = results"
| "search_items E (n # ns) results = search_items E ns (search_item E [n] results)"

definition Search ::
  "'n env \<Rightarrow> go_context \<Rightarrow> string \<Rightarrow> SFlix \<Rightarrow> (error + Media list) \<times> SFlix" where
  "Search E ctx query s =
     (case searchCache s query of
        Some cached \<Rightarrow> (Inr cached, s)
      | None \<Rightarrow>
          (let searchQuery = ReplaceAll query '' '' ''-'';
               searchURL = BaseURL s @ ''/search/'' @ searchQuery
           in case NewRequest E searchURL of
                Some err \<Rightarrow> (Inl (Wrap ''failed to create request'' err), s)
              | None \<Rightarrow>
                  (case Client_Do (page_request s searchURL) s of
                     (Inl err, s1) \<Rightarrow> (Inl (Wrap ''failed to fetch search results'' err), s1)
                   | (Inr resp, s1) \<Rightarrow>
                       (case NewDocumentFromReader E (Body resp) of
                          Inl err \<Rightarrow> (Inl (Wrap ''failed to parse HTML'' err), s1)
                        | Inr doc \<Rightarrow>
                            (let results = search_items E (Find E ''div.flw-item'' doc) []
                             in (Inr results,
                                 s1\<lparr>searchCache := (searchCache s1)(query \<mapsto> results)\<rparr>))))))"

section \<open>Seasons and episodes\<close>

text \<open>
  \<open>GetSeasons\<close>: the loop over the episodes with \<open>seasonsMap\<close> (a \<open>map[int]bool\<close>, false where
  nothing was stored) and \<open>seasons\<close>, then the two nested loops that sort by exchange.
\<close>

fun season_loop ::
  "string \<Rightarrow> types_Episode list \<Rightarrow> (int \<Rightarrow> bool) \<Rightarrow> providers_Season list \<Rightarrow> providers_Season list"
  where
  "season_loop mediaID [] seasonsMap seasons = seasons"
| "season_loop mediaID (ep # eps) seasonsMap seasons =
     (let sNum = (if Ep_Season ep = 0 then 1 else Ep_Season ep)
      in if \<not> seasonsMap sNum
         then season_loop mediaID eps (seasonsMap(sNum := True))
                (seasons @ [\<lparr>Season_ID = mediaID @ ''|'' @ Itoa sNum, Season_Number = sNum,
                              Season_Title = ''Season '' @ Itoa sNum\<rparr>])
         else season_loop mediaID eps seasonsMap seasons)"

function sort_inner :: "providers_Season list \<Rightarrow> nat \<Rightarrow> nat \<Rightarrow> providers_Season list" where
  "sort_inner seasons i j =
     (if j < length seasons
      then sort_inner
             (if Season_Number (seasons ! i) > Season_Number (seasons ! j)
              then seasons[i := seasons ! j, j := seasons ! i] else seasons)
             i (j + 1)
      else seasons)"
  by pat_completeness auto
termination
  by (relation "measure (\<lambda>(seasons, i, j). length seasons - j)") auto

declare sort_inner.simps [simp del]

lemma length_sort_inner [simp]: "length (sort_inner seasons i j) = length seasons"
proof (induction seasons i j rule: sort_inner.induct)
  case (1 seasons i j)
  then show ?case
    by (subst sort_inner.simps) (simp split: if_splits)
qed

function sort_outer :: "providers_Season list \<Rightarrow> nat \<Rightarrow> providers_Season list" where
  "sort_outer seasons i =
     (if i < length seasons then sort_outer (sort_inner seasons i (i + 1)) (i + 1) else seasons)"
  by pat_completeness auto
termination
  by (relation "measure (\<lambda>(seasons, i). length seasons - i)") auto

declare sort_outer.simps [simp del]

definition GetSeasons ::
  "'n env \<Rightarrow> go_context \<Rightarrow> string \<Rightarrow> SFlix \<Rightarrow> (error + providers_Season list) \<times> SFlix" where
  "GetSeasons E ctx mediaID s =
     (case GetInfo E mediaID s of
        (Inl err, s1) \<Rightarrow> (Inl err, s1)
      | (Inr (AnyVideoSources v), s1) \<Rightarrow> (Inl (Errorf ''invalid info type''), s1)
      | (Inr (AnyMovieInfo movieInfo), s1) \<Rightarrow>
          if length (Info_Episodes movieInfo) = 0
          then (Inr [\<lparr>Season_ID = mediaID, Season_Number = 1, Season_Title = ''Season 1''\<rparr>], s1)
          else (Inr (sort_outer (season_loop mediaID (Info_Episodes movieInfo) (\<lambda>n. False) []) 0),
                s1))"

text \<open>
  \<open>GetEpisodes\<close>, in two parts: \<open>split_seasonID\<close> is the code that derives \<open>mediaID\<close> and
  \<open>seasonNum\<close> from the season id, \<open>episodes_of_season\<close> everything after it.
\<close>

definition split_seasonID :: "string \<Rightarrow> string \<times> int" where
  "split_seasonID seasonID =
     (if Contains seasonID ''|''
      then
        (let parts = Split seasonID ''|''
         in (parts ! 0,
             if length parts > 1
             then (case Atoi (parts ! 1) of Inr n \<Rightarrow> n | Inl err \<Rightarrow> 1)
             else 1))
      else (seasonID, 1))"

fun episode_loop :: "int \<Rightarrow> types_Episode list \<Rightarrow> providers_Episode list \<Rightarrow> providers_Episode list"
  where
  "episode_loop seasonNum [] episodes = episodes"
| "episode_loop seasonNum (ep # eps) episodes =
     (let epSeason = (if Ep_Season ep = 0 then 1 else Ep_Season ep)
      in if epSeason = seasonNum
         then episode_loop seasonNum eps
                (episodes @
                 [\<lparr>Episode_ID = (if Ep_URL ep \<noteq> [] \<and> Ep_URL ep \<noteq> Ep_ID ep
                                  then Ep_ID ep @ ''|'' @ Ep_URL ep else Ep_ID ep),
                   Episode_Number = Ep_Number ep, Episode_Title = Ep_Title ep,
                   Episode_Season = epSeason\<rparr>])
         else episode_loop seasonNum eps episodes)"

definition episodes_of_season ::
  "'n env \<Rightarrow> string \<Rightarrow> int \<Rightarrow> SFlix \<Rightarrow> (error + providers_Episode list) \<times> SFlix" where
  "episodes_of_season E mediaID seasonNum s =
     (case GetInfo E mediaID s of
        (Inl err, s1) \<Rightarrow> (Inl err, s1)
      | (Inr (AnyVideoSources v), s1) \<Rightarrow> (Inl (Errorf ''invalid info type''), s1)
      | (Inr (AnyMovieInfo movieInfo), s1) \<Rightarrow>
          (let episodes = episode_loop seasonNum (Info_Episodes movieInfo) []
           in if length (Info_Episodes movieInfo) = 0 \<and> seasonNum = 1
              then (Inr (episodes @
                         [\<lparr>Episode_ID = Info_ID movieInfo, Episode_Number = 1,
                           Episode_Title = Info_Title movieInfo, Episode_Season = 1\<rparr>]), s1)
              else (Inr episodes, s1)))"

definition GetEpisodes ::
  "'n env \<Rightarrow> go_context \<Rightarrow> string \<Rightarrow> SFlix \<Rightarrow> (error + providers_Episode list) \<times> SFlix" where
  "GetEpisodes E ctx seasonID s =
     (case split_seasonID seasonID of
        (mediaID, seasonNum) \<Rightarrow> episodes_of_season E mediaID seasonNum s)"

definition GetMovieEpisodeID ::
  "'n env \<Rightarrow> go_context \<Rightarrow> string \<Rightarrow> SFlix \<Rightarrow> (error + string) \<times> SFlix" where
  "GetMovieEpisodeID E ctx mediaID s =
     (case GetInfo E mediaID s of
        (Inl err, s1) \<Rightarrow> (Inl err, s1)
      | (Inr (AnyVideoSources v), s1) \<Rightarrow> (Inl (Errorf ''invalid info type''), s1)
      | (Inr (AnyMovieInfo movieInfo), s1) \<Rightarrow>
          (case Info_Episodes movieInfo of
             ep # rest \<Rightarrow>
               if Ep_URL ep \<noteq> [] then (Inr (Ep_ID ep @ ''|'' @ Ep_URL ep), s1)
               else (Inr (Ep_ID ep), s1)
           | [] \<Rightarrow> (Inl (Errorf (''no episodes found for movie '' @ mediaID)), s1)))"

section \<open>The provider registry\<close>

text \<open>
  \<open>config.ProviderSettings\<close> and \<open>config.ProvidersConfig\<close>, with the fields \<open>Registry.Load\<close>
  reads. A registered provider is one of the built-in adapters (named here by its package),
  a remote client \<open>remote.New(name, url)\<close>, or a plugin adapter returned by
  \<open>luaprovider.New\<close>.
\<close>

record ProviderSettings =
  Mode :: string
  RemoteURL :: string
  Enabled :: bool

record ProvidersConfig =
  cfg_AllAnime :: ProviderSettings
  cfg_HiAnime :: ProviderSettings
  cfg_SFlix :: ProviderSettings
  cfg_FlixHQ :: ProviderSettings
  cfg_HDRezka :: ProviderSettings
  cfg_Comix :: ProviderSettings
  cfg_Lua :: ProviderSettings

record Config =
  Providers :: ProvidersConfig

datatype 'l Provider = Builtin string | Remote string string | Lua 'l

record 'l Registry =
  providers :: "string \<rightharpoonup> 'l Provider"

definition New :: "'l Registry" where
  "New = \<lparr>providers = Map.empty\<rparr>"

text \<open>
  The operating system and the plugin package, which the repository's files do not define:
  \<open>os.Getenv\<close>, \<open>filepath.Join\<close>, \<open>os.ReadDir\<close> with the name and \<open>IsDir\<close> of each entry, and
  \<open>luaprovider.New\<close> with the \<open>Name\<close> and \<open>Type\<close> methods of what it returns. \<open>New\<close> has a
  single result, so it has no error to hand to its caller: \<open>lua_New path\<close> is \<open>Some lp\<close> when
  the call returns the adapter \<open>lp\<close>, whatever became of the script, and \<open>None\<close> when the call
  does not return (a failure that propagates out of it is a panic).
\<close>

record DirEntry =
  entry_Name :: string
  entry_IsDir :: bool

record 'l host =
  Getenv :: "string \<Rightarrow> string"
  Join :: "string list \<Rightarrow> string"
  ReadDir :: "string \<Rightarrow> error + DirEntry list"
  lua_New :: "string \<Rightarrow> 'l option"
  lua_Name :: "'l \<Rightarrow> string"
  lua_Type :: "'l \<Rightarrow> string"

text \<open>\<open>strings.TrimRight(s, cutset)\<close>, and \<open>filepath.Ext\<close> with \<open>/\<close> as the path separator.\<close>

definition TrimRight :: "string \<Rightarrow> string \<Rightarrow> string" where
  "TrimRight s cutset = rev (dropWhile (\<lambda>c. c \<in> set cutset) (rev s))"

fun Ext_from :: "string \<Rightarrow> string \<Rightarrow> string" where
  "Ext_from [] seen = []"
| "Ext_from (c # front) seen =
     (if c = CHR ''/'' then [] else if c = CHR ''.'' then c # seen else Ext_from front (c # seen))"

definition Ext :: "string \<Rightarrow> string" where
  "Ext path = Ext_from (rev path) []"

definition getHomeDir :: "'l host \<Rightarrow> string" where
  "getHomeDir H =
     (if Getenv H ''HOME'' \<noteq> [] then Getenv H ''HOME''
      else if Getenv H ''USERPROFILE'' \<noteq> [] then Getenv H ''USERPROFILE''
      else ''.'')"

definition getConfigDir :: "'l host \<Rightarrow> string" where
  "getConfigDir H =
     (if Getenv H ''GREG_CONFIG_HOME'' \<noteq> [] then Getenv H ''GREG_CONFIG_HOME''
      else if Getenv H ''APPDATA'' \<noteq> [] then Join H [Getenv H ''APPDATA'', ''greg'']
      else if Getenv H ''XDG_CONFIG_HOME'' \<noteq> [] then Join H [Getenv H ''XDG_CONFIG_HOME'', ''greg'']
      else Join H [getHomeDir H, ''.config'', ''greg''])"

definition GetConfigDir :: "'l host \<Rightarrow> string" where
  "GetConfigDir H = getConfigDir H"

text \<open>
  The closure \<open>register\<close> of \<open>Load\<close>. \<open>localFactory\<close> is \<open>None\<close> for a nil function and
  \<open>Some p\<close> for a function returning \<open>p\<close>.
\<close>

definition register ::
  "string \<Rightarrow> ProviderSettings \<Rightarrow> 'l Provider option \<Rightarrow> string \<Rightarrow> 'l Registry \<Rightarrow> 'l Registry"
  where
  "register name settings localFactory mediaType r =
     (if \<not> Enabled settings then r
      else if Mode settings = ''remote''
      then
        (if RemoteURL settings \<noteq> []
         then
           (let url = RemoteURL settings;
                url1 = (if \<not> Contains url (''/'' @ name)
                        then TrimRight url ''/'' @ ''/'' @ mediaType @ ''/'' @ name
                        else url)
            in r\<lparr>providers := (providers r)(name \<mapsto> Remote name url1)\<rparr>)
         else r)
      else
        (case localFactory of
           Some p \<Rightarrow> r\<lparr>providers := (providers r)(name \<mapsto> p)\<rparr>
         | None \<Rightarrow> r))"

text \<open>The seven calls under "Register known providers".\<close>

definition register_known :: "Config \<Rightarrow> 'l Registry \<Rightarrow> 'l Registry" where
  "register_known cfg r =
     (let r1 = register ''hianime'' (cfg_HiAnime (Providers cfg)) (Some (Builtin ''anime/hianime''))
                 ''anime'' r;
          r2 = register ''allanime'' (cfg_AllAnime (Providers cfg))
                 (Some (Builtin ''anime/allanime'')) ''anime'' r1;
          r3 = register ''sflix'' (cfg_SFlix (Providers cfg)) (Some (Builtin ''movies/sflix''))
                 ''movies'' r2;
          r4 = register ''flixhq'' (cfg_FlixHQ (Providers cfg)) (Some (Builtin ''movies/flixhq''))
                 ''movies'' r3;
          r5 = register ''hdrezka'' (cfg_HDRezka (Providers cfg))
                 (Some (Builtin ''movies/hdrezka'')) ''movies'' r4;
          r6 = register ''hdrezka_anime'' (cfg_HDRezka (Providers cfg))
                 (Some (Builtin ''anime/hdrezka'')) ''anime'' r5
      in register ''comix'' (cfg_Comix (Providers cfg)) (Some (Builtin ''manga/comix''))
           ''manga'' r6)"

text \<open>
  How a call of \<open>Load\<close> ends: it returns, or a panic raised in \<open>luaprovider.New\<close> passes
  through it (\<open>Load\<close> has no \<open>recover\<close>). Its result here is that ending, the registry as
  \<open>Load\<close> left it, and \<open>loaded\<close>: in order, the paths given to \<open>luaprovider.New\<close>.
\<close>

datatype ending = Returned | Panicked

fun load_files ::
  "'l host \<Rightarrow> Config \<Rightarrow> string \<Rightarrow> DirEntry list \<Rightarrow> 'l Registry \<Rightarrow> string list \<Rightarrow>
   ending \<times> 'l Registry \<times> string list" where
  "load_files H cfg luaDir [] r loaded = (Returned, r, loaded)"
| "load_files H cfg luaDir (file # files) r loaded =
     (if \<not> entry_IsDir file \<and> Ext (entry_Name file) = ''.lua''
      then
        (let path = Join H [luaDir, entry_Name file]
         in case lua_New H path of
              None \<Rightarrow> (Panicked, r, loaded @ [path])
            | Some lp \<Rightarrow>
                load_files H cfg luaDir files
                  (register (lua_Name H lp) (cfg_Lua (Providers cfg)) (Some (Lua lp))
                     (lua_Type H lp) r)
                  (loaded @ [path]))
      else load_files H cfg luaDir files r loaded)"

definition Load ::
  "'l host \<Rightarrow> Config \<Rightarrow> 'l Registry \<Rightarrow> ending \<times> 'l Registry \<times> string list" where
  "Load H cfg r =
     (let r1 = register_known cfg r;
          luaDir = Join H [GetConfigDir H, ''luaProviders'']
      in case ReadDir H luaDir of
           Inl err \<Rightarrow> (Returned, r1, [])
         | Inr files \<Rightarrow> load_files H cfg luaDir files r1 [])"

definition Get :: "'l Registry \<Rightarrow> string \<Rightarrow> error + 'l Provider" where
  "Get r name =
     (case providers r name of
        Some p \<Rightarrow> Inr p
      | None \<Rightarrow> Inl (Errorf (''provider not found: '' @ name)))"

section \<open>A small upstream, for concrete runs\<close>

text \<open>
  A concrete instance of the libraries and of the network, on which the adapter can be run.
  A page is given by the answers to the queries made on it: for each selector the nodes
  \<open>Find\<close> returns, its text, and its attributes. The string functions are the ASCII part of
  Go's (Go's also treat the letters and spaces of Unicode beyond ASCII).
\<close>

datatype page = Page (found: "(string \<times> page list) list") (page_text: string)
  (page_attrs: "(string \<times> string) list")

definition page_Find :: "string \<Rightarrow> page list \<Rightarrow> page list" where
  "page_Find sel ps = concat (map (\<lambda>p. case map_of (found p) sel of None \<Rightarrow> [] | Some ms \<Rightarrow> ms) ps)"

definition page_Text :: "page list \<Rightarrow> string" where
  "page_Text ps = concat (map page_text ps)"

definition page_Attr :: "string \<Rightarrow> page list \<Rightarrow> string option" where
  "page_Attr a ps = (case ps of [] \<Rightarrow> None | p # rest \<Rightarrow> map_of (page_attrs p) a)"

definition ascii_lower :: "char \<Rightarrow> char" where
  "ascii_lower c =
     (case map_of (zip ''ABCDEFGHIJKLMNOPQRSTUVWXYZ'' ''abcdefghijklmnopqrstuvwxyz'') c of
        Some l \<Rightarrow> l
      | None \<Rightarrow> c)"

definition ascii_ToLower :: "string \<Rightarrow> string" where
  "ascii_ToLower s = map ascii_lower s"

definition ascii_EqualFold :: "string \<Rightarrow> string \<Rightarrow> bool" where
  "ascii_EqualFold a b = (map ascii_lower a = map ascii_lower b)"

definition ascii_space :: "char \<Rightarrow> bool" where
  "ascii_space c = ((of_char c :: nat) = 32 \<or> (9 \<le> (of_char c :: nat) \<and> (of_char c :: nat) \<le> 13))"

definition ascii_TrimSpace :: "string \<Rightarrow> string" where
  "ascii_TrimSpace s = rev (dropWhile ascii_space (rev (dropWhile ascii_space s)))"

text \<open>\<open>http.NewRequest\<close> refuses a URL with an ASCII control character.\<close>

definition demo_NewRequest :: "string \<Rightarrow> error option" where
  "demo_NewRequest url =
     (if list_ex (\<lambda>c. (of_char c :: nat) < 32 \<or> (of_char c :: nat) = 127) url
      then Some (External ''net/url: invalid control character in URL'')
      else None)"

text \<open>The decoder reads bodies of the form \<open>link=URL\<close>; an empty body has no link.\<close>

definition demo_Unmarshal_Link :: "string \<Rightarrow> error + string" where
  "demo_Unmarshal_Link body =
     (if body = [] then Inr []
      else if HasPrefix body ''link='' then Inr (drop 5 body)
      else Inl (External ''invalid character''))"

definition demo_server_item :: "string \<Rightarrow> string \<Rightarrow> page" where
  "demo_server_item dataID name =
     Page [(''a'', [Page [] [] [(''data-id'', dataID)]]), (''a span'', [Page [] name []])] [] []"

definition demo_servers_page :: "page list" where
  "demo_servers_page =
     [Page [(''.ulclear > li'',
             [demo_server_item ''s1'' '' UpCloud '',
              demo_server_item ''s2'' ''MegaCloud'',
              demo_server_item ''s3'' ''Vidcloud''])] [] []]"

text \<open>
  The pages of a show with two seasons, listed by the site as season 2 before season 1,
  and a search result page.
\<close>

definition demo_show_page :: "page list" where
  "demo_show_page =
     [Page [(''h2.heading-name'', [Page [] '' Some Show '' []]),
            (''img.film-poster-img'', [Page [] [] [(''src'', ''https://img/show.jpg'')]]),
            (''div.description'', [Page [] ''A show.'' []]),
            (''span.imdb'', [Page [] ''IMDB: 7.5'' []]),
            (''div.elements .row-line'',
             [Page [] ''Released: 2020-01-01'' [],
              Page [(''a'', [Page [] ''Drama'' [], Page [] ''http://ads'' []])] ''Genre: Drama'' []]),
            (''.detail_page-watch'', [Page [] [] [(''data-id'', ''77'')]])] [] []]"

definition demo_season_list :: "page list" where
  "demo_season_list =
     [Page [(''.ss-item'',
             [Page [] ''Season 2'' [(''data-id'', ''sa'')],
              Page [] ''Season 1'' [(''data-id'', ''sb'')]])] [] []]"

definition demo_episode_item :: "string \<Rightarrow> string \<Rightarrow> string \<Rightarrow> page" where
  "demo_episode_item dataID number title =
     Page [(''.episode-number'', [Page [] number []]), (''.film-name a'', [Page [] title []])] []
       [(''data-id'', dataID)]"

definition demo_episodes_a :: "page list" where
  "demo_episodes_a =
     [Page [(''.eps-item'', [demo_episode_item ''e21'' ''Episode 1:'' ''Return''])] [] []]"

definition demo_episodes_b :: "page list" where
  "demo_episodes_b =
     [Page [(''.eps-item'',
             [demo_episode_item ''e11'' ''Episode 1:'' ''Pilot'',
              demo_episode_item ''e12'' ''Episode 2:'' ''Second''])] [] []]"

definition demo_search_page :: "page list" where
  "demo_search_page =
     [Page [(''div.flw-item'',
             [Page [(''h2.film-name a'', [Page [] ''Some Show '' [(''href'', ''/tv/show'')]]),
                    (''img'', [Page [] [] [(''data-src'', ''https://img/show.jpg'')]]),
                    (''.fdi-item'', [Page [] ''TV'' [], Page [] ''2020'' []])] [] []])] [] []]"

definition demo_NewDocument :: "string \<Rightarrow> error + page list" where
  "demo_NewDocument body =
     (if body = ''servers'' then Inr demo_servers_page
      else if body = ''show'' then Inr demo_show_page
      else if body = ''seasons'' then Inr demo_season_list
      else if body = ''episodes-a'' then Inr demo_episodes_a
      else if body = ''episodes-b'' then Inr demo_episodes_b
      else if body = ''search'' then Inr demo_search_page
      else Inr [Page [] body []])"

definition demo_env :: "page env" where
  "demo_env =
     \<lparr>NewRequest = demo_NewRequest, NewDocument = demo_NewDocument, Find = page_Find,
      Text = page_Text, Attr = page_Attr, Unmarshal_Link = demo_Unmarshal_Link,
      TrimSpace = ascii_TrimSpace, ToLower = ascii_ToLower, EqualFold = ascii_EqualFold,
      QualityAuto = ''auto''\<rparr>"

text \<open>
  The site: a server list for the movie episode \<open>ep1\<close>; server \<open>s1\<close> is unreachable, \<open>s2\<close>
  and \<open>s3\<close> give embed links; the extractor knows the link of \<open>s2\<close> only.
\<close>

definition demo_respond :: "event list \<Rightarrow> request \<Rightarrow> error + response" where
  "demo_respond history req =
     (if req_URL req = ''https://sflix.ps/ajax/episode/list/ep1''
      then Inr \<lparr>StatusCode = 200, Body = Inr ''servers''\<rparr>
      else if req_URL req = ''https://sflix.ps/ajax/episode/sources/s1''
      then Inl (External ''connection refused'')
      else if req_URL req = ''https://sflix.ps/ajax/episode/sources/s2''
      then Inr \<lparr>StatusCode = 200, Body = Inr ''link=https://megacloud.tv/e/2''\<rparr>
      else if req_URL req = ''https://sflix.ps/ajax/episode/sources/s3''
      then Inr \<lparr>StatusCode = 200, Body = Inr ''link=https://megacloud.tv/e/3''\<rparr>
      else if req_URL req = ''https://sflix.ps/tv/show''
      then Inr \<lparr>StatusCode = 200, Body = Inr ''show''\<rparr>
      else if req_URL req = ''https://sflix.ps/ajax/season/list/77''
      then Inr \<lparr>StatusCode = 200, Body = Inr ''seasons''\<rparr>
      else if req_URL req = ''https://sflix.ps/ajax/season/episodes/sa''
      then Inr \<lparr>StatusCode = 200, Body = Inr ''episodes-a''\<rparr>
      else if req_URL req = ''https://sflix.ps/ajax/season/episodes/sb''
      then Inr \<lparr>StatusCode = 200, Body = Inr ''episodes-b''\<rparr>
      else if req_URL req = ''https://sflix.ps/search/some-show''
      then Inr \<lparr>StatusCode = 200, Body = Inr ''search''\<rparr>
      else Inr \<lparr>StatusCode = 404, Body = Inr []\<rparr>)"

definition demo_sources :: VideoSources where
  "demo_sources =
     \<lparr>Sources =
        [\<lparr>Source_URL = ''https://cdn/720.m3u8'', Source_Quality = ''720p'',
          Source_IsM3U8 = True, Source_Referer = ''https://megacloud.tv/''\<rparr>,
         \<lparr>Source_URL = ''https://cdn/1080.m3u8'', Source_Quality = ''1080p'',
          Source_IsM3U8 = True, Source_Referer = ''https://megacloud.tv/''\<rparr>],
      Subtitles = [\<lparr>Sub_URL = ''https://cdn/en.vtt'', Sub_Lang = ''English''\<rparr>]\<rparr>"

definition demo_extractor ::
  "event list \<Rightarrow> string \<Rightarrow> string \<Rightarrow> VideoSources option \<times> error option" where
  "demo_extractor history name url =
     (if url = ''https://megacloud.tv/e/2'' then (Some demo_sources, None)
      else (None, Some (External ''extraction failed'')))"

definition demo_sflix :: SFlix where
  "demo_sflix =
     \<lparr>BaseURL = ''https://sflix.ps'',
      Client = \<lparr>trace = [], respond = demo_respond, extractor = demo_extractor\<rparr>,
      searchCache = Map.empty, infoCache = Map.empty\<rparr>"

text \<open>The same adapter while the site cannot be reached.\<close>

definition demo_sflix_offline :: SFlix where
  "demo_sflix_offline =
     demo_sflix\<lparr>Client := (Client demo_sflix)
       \<lparr>respond := (\<lambda>history req. Inl (External ''connection refused''))\<rparr>\<rparr>"

definition demo_server :: "string \<Rightarrow> string \<Rightarrow> EpisodeServer" where
  "demo_server name dataID = \<lparr>Server_Name = name, Server_URL = dataID\<rparr>"

text \<open>
  Variants of the site: one where no extractor succeeds, and one where every server answers
  and every extractor finds nothing.
\<close>

definition demo_sflix_failing :: SFlix where
  "demo_sflix_failing =
     demo_sflix\<lparr>Client := (Client demo_sflix)
       \<lparr>extractor := (\<lambda>history name url. (None, Some (External ''extraction failed'')))\<rparr>\<rparr>"

definition demo_sflix_empty :: SFlix where
  "demo_sflix_empty =
     demo_sflix\<lparr>Client := (Client demo_sflix)
       \<lparr>respond := (\<lambda>history req.
           if req_URL req = ''https://sflix.ps/ajax/episode/sources/s1''
           then Inr \<lparr>StatusCode = 200, Body = Inr ''link=https://megacloud.tv/e/1''\<rparr>
           else demo_respond history req),
        extractor := (\<lambda>history name url. (Some \<lparr>Sources = [], Subtitles = []\<rparr>, None))\<rparr>\<rparr>"

text \<open>What the adapter makes of the pages of the show, and of the search page.\<close>

definition demo_show_info :: MovieInfo where
  "demo_show_info =
     \<lparr>Info_ID = ''tv/show'', Info_URL = ''https://sflix.ps/tv/show'',
      Info_Episodes =
        [\<lparr>Ep_ID = ''e21'', Ep_Number = 1, Ep_Season = 2, Ep_Title = ''Return'',
          Ep_URL = ''tv/show''\<rparr>,
         \<lparr>Ep_ID = ''e11'', Ep_Number = 1, Ep_Season = 1, Ep_Title = ''Pilot'',
          Ep_URL = ''tv/show''\<rparr>,
         \<lparr>Ep_ID = ''e12'', Ep_Number = 2, Ep_Season = 1, Ep_Title = ''Second'',
          Ep_URL = ''tv/show''\<rparr>],
      Info_Genres = [''Drama''], Info_Type = ''tv'', Info_Title = ''Some Show'',
      Info_Image = ''https://img/show.jpg'', Info_Description = ''A show.'',
      Info_Rating = ''7.5'', Info_ReleaseDate = ''2020-01-01'', Info_LastSeason = 2,
      Info_TotalEpisodesLastSeason = 1\<rparr>"

definition demo_details :: MediaDetails where
  "demo_details =
     \<lparr>MediaDetails_Media =
        \<lparr>Media_ID = ''tv/show'', Media_Title = ''Some Show'', Media_Type = MediaTypeTV,
         Media_PosterURL = ''https://img/show.jpg'', Media_Year = 0,
         Media_Synopsis = ''A show.'', Media_Genres = [''Drama'']\<rparr>\<rparr>"

definition demo_results :: "Media list" where
  "demo_results =
     [\<lparr>Media_ID = ''tv/show'', Media_Title = ''Some Show'', Media_Type = MediaTypeTV,
       Media_PosterURL = ''https://img/show.jpg'', Media_Year = 2020, Media_Synopsis = [],
       Media_Genres = []\<rparr>]"

text \<open>The site changes between two calls: it goes away, or it comes back.\<close>

definition goes_offline :: "SFlix \<Rightarrow> SFlix" where
  "goes_offline s =
     s\<lparr>Client := (Client s)\<lparr>respond := (\<lambda>history req. Inl (External ''connection refused''))\<rparr>\<rparr>"

definition comes_online :: "SFlix \<Rightarrow> SFlix" where
  "comes_online s = s\<lparr>Client := (Client s)\<lparr>respond := demo_respond\<rparr>\<rparr>"

definition demo_after_failure :: SFlix where
  "demo_after_failure =
     snd (GetMediaDetails demo_env (Context None) ''tv/show'' demo_sflix_offline)"

text \<open>A host for concrete runs of the registry.\<close>

definition demo_settings :: ProviderSettings where
  "demo_settings = \<lparr>Mode = ''local'', RemoteURL = [], Enabled = True\<rparr>"

definition demo_config :: Config where
  "demo_config =
     \<lparr>Providers =
        \<lparr>cfg_AllAnime = demo_settings\<lparr>Enabled := False\<rparr>,
         cfg_HiAnime = demo_settings\<lparr>Mode := ''remote'', RemoteURL := ''http://api/''\<rparr>,
         cfg_SFlix = demo_settings, cfg_FlixHQ = demo_settings,
         cfg_HDRezka = demo_settings\<lparr>Enabled := False\<rparr>,
         cfg_Comix = demo_settings\<lparr>Enabled := False\<rparr>, cfg_Lua = demo_settings\<rparr>\<rparr>"

text \<open>
  The plugin directory holds two scripts, a subdirectory and a text file. A plugin adapter
  is \<open>Plugin path\<close> when the script at \<open>path\<close> was loaded, and then reports the base name of
  the script as its name; it is \<open>BrokenPlugin path\<close> when the script failed to load and the
  adapter was returned all the same, and then reports the name \<open>Unknown\<close>.
\<close>

definition demo_entries :: "DirEntry list" where
  "demo_entries =
     [\<lparr>entry_Name = ''alpha.lua'', entry_IsDir = False\<rparr>,
      \<lparr>entry_Name = ''lib.lua'', entry_IsDir = True\<rparr>,
      \<lparr>entry_Name = ''notes.txt'', entry_IsDir = False\<rparr>,
      \<lparr>entry_Name = ''sflix.lua'', entry_IsDir = False\<rparr>]"

datatype demo_plugin = Plugin string | BrokenPlugin string

definition demo_plugin_name :: "string \<Rightarrow> string" where
  "demo_plugin_name path = TrimSuffix (last (Split path ''/'')) ''.lua''"

fun demo_lua_Name :: "demo_plugin \<Rightarrow> string" where
  "demo_lua_Name (Plugin path) = demo_plugin_name path"
| "demo_lua_Name (BrokenPlugin path) = ''Unknown''"

fun demo_lua_Type :: "demo_plugin \<Rightarrow> string" where
  "demo_lua_Type (Plugin path) = ''movie_tv''"
| "demo_lua_Type (BrokenPlugin path) = ''unknown''"

definition demo_host ::
  "(string \<Rightarrow> error + DirEntry list) \<Rightarrow> (string \<Rightarrow> demo_plugin option) \<Rightarrow> demo_plugin host"
  where
  "demo_host readDir new =
     \<lparr>Getenv = (\<lambda>name. if name = ''GREG_CONFIG_HOME'' then ''/cfg'' else []),
      Join = (\<lambda>parts. case parts of [] \<Rightarrow> [] | p # ps \<Rightarrow> foldl (\<lambda>a b. a @ ''/'' @ b) p ps),
      ReadDir = readDir, lua_New = new, lua_Name = demo_lua_Name, lua_Type = demo_lua_Type\<rparr>"

definition demo_ReadDir :: "string \<Rightarrow> error + DirEntry list" where
  "demo_ReadDir dir =
     (if dir = ''/cfg/luaProviders'' then Inr demo_entries
      else Inl (External ''no such file or directory''))"

text \<open>
  Five hosts: every script loads; \<open>alpha.lua\<close> fails to load and its adapter is returned;
  \<open>alpha.lua\<close> fails to load and \<open>luaprovider.New\<close> does not return; the directory is empty;
  the directory cannot be read.
\<close>

definition demo_host_plugins :: "demo_plugin host" where
  "demo_host_plugins = demo_host demo_ReadDir (\<lambda>path. Some (Plugin path))"

definition demo_host_broken :: "demo_plugin host" where
  "demo_host_broken =
     demo_host demo_ReadDir
       (\<lambda>path. if path = ''/cfg/luaProviders/alpha.lua'' then Some (BrokenPlugin path)
                else Some (Plugin path))"

definition demo_host_fatal :: "demo_plugin host" where
  "demo_host_fatal =
     demo_host demo_ReadDir
       (\<lambda>path. if path = ''/cfg/luaProviders/alpha.lua'' then None else Some (Plugin path))"

definition demo_host_empty :: "demo_plugin host" where
  "demo_host_empty = demo_host (\<lambda>dir. Inr []) (\<lambda>path. Some (Plugin path))"

definition demo_host_unreadable :: "demo_plugin host" where
  "demo_host_unreadable =
     demo_host (\<lambda>dir. Inl (External ''permission denied'')) (\<lambda>path. Some (Plugin path))"

section \<open>Facts about the trace\<close>

lemmas demo_defs = demo_env_def demo_sflix_def demo_respond_def demo_extractor_def
  demo_NewRequest_def demo_NewDocument_def demo_servers_page_def demo_server_item_def
  demo_Unmarshal_Link_def page_Find_def page_Text_def page_Attr_def ascii_TrimSpace_def
  ascii_space_def ascii_ToLower_def ascii_lower_def ascii_EqualFold_def demo_server_def
  demo_sources_def demo_sflix_failing_def demo_sflix_empty_def demo_sflix_offline_def
  demo_show_page_def demo_season_list_def demo_episode_item_def demo_episodes_a_def
  demo_episodes_b_def demo_search_page_def

lemmas run_defs = FetchEpisodeServersWithMediaID_def extractSourcesFromServer_def
  FetchEpisodeSourcesWithMediaID_def Client_Do_def Extractor_Extract_def record_event_def
  ajax_request_def server_of_item_def HasPrefix_def Replace_def Split_def Let_def

lemma invoked_record_event:
  "invoked (record_event e s) = invoked s @ (case e of Invoke server \<Rightarrow> [server] | _ \<Rightarrow> [])"
proof -
  have "invoked_of (xs @ [e]) = invoked_of xs @ (case e of Invoke server \<Rightarrow> [server] | _ \<Rightarrow> [])"
    for xs
    by (induction xs rule: invoked_of.induct) (auto split: event.splits)
  then show ?thesis by (simp add: invoked_def record_event_def)
qed

lemma invoked_Client_Do: "invoked (snd (Client_Do req s)) = invoked s"
  by (simp add: Client_Do_def invoked_record_event)

lemma invoked_Extractor_Extract: "invoked (snd (Extractor_Extract name url s)) = invoked s"
  by (simp add: Extractor_Extract_def invoked_record_event)

lemma invoked_extractSourcesFromServer:
  "invoked (snd (extractSourcesFromServer E server s)) = invoked s @ [server]"
proof -
  have a: "invoked s2 = invoked s1" if "Client_Do req s1 = (r, s2)" for req s1 r s2
    using invoked_Client_Do [of req s1] that by simp
  have b: "invoked s2 = invoked s1" if "Extractor_Extract n u s1 = (r, s2)" for n u s1 r s2
    using invoked_Extractor_Extract [of n u s1] that by simp
  show ?thesis
    by (auto simp: extractSourcesFromServer_def Let_def invoked_record_event
        split: option.splits prod.splits sum.splits dest!: a b)
qed

lemma invoked_FetchEpisodeServersWithMediaID:
  "invoked (snd (FetchEpisodeServersWithMediaID E episodeID mediaID s)) = invoked s"
proof -
  have a: "invoked s2 = invoked s1" if "Client_Do req s1 = (r, s2)" for req s1 r s2
    using invoked_Client_Do [of req s1] that by simp
  show ?thesis
    by (auto simp: FetchEpisodeServersWithMediaID_def Let_def
        split: option.splits prod.splits sum.splits dest!: a)
qed

lemma invoked_attempt_each:
  "invoked (snd (attempt_each E servers s)) = invoked s @ servers"
proof (induction servers arbitrary: s)
  case Nil
  then show ?case by simp
next
  case (Cons server rest)
  obtain r s1 where e: "extractSourcesFromServer E server s = (r, s1)"
    by (cases "extractSourcesFromServer E server s")
  obtain rs s2 where a: "attempt_each E rest s1 = (rs, s2)"
    by (cases "attempt_each E rest s1")
  show ?case
    using Cons.IH [of s1] invoked_extractSourcesFromServer [of E server s] e a
    by simp
qed

section \<open>The server loop\<close>

lemma attempt_each_snoc:
  "attempt_each E (xs @ [x]) t =
     (fst (attempt_each E xs t) @ [fst (extractSourcesFromServer E x (snd (attempt_each E xs t)))],
      snd (extractSourcesFromServer E x (snd (attempt_each E xs t))))"
  by (induction xs arbitrary: t) (simp_all add: case_prod_beta)

lemma try_servers_first_success:
  "attempt_each E pre s = (rs, s1) \<Longrightarrow> list_all isl rs \<Longrightarrow>
   extractSourcesFromServer E server s1 = (Inr (Some v), s2) \<Longrightarrow> Sources v \<noteq> [] \<Longrightarrow>
   try_servers E (pre @ server # post) lastErr s = (Ok v, s2)"
proof (induction pre arbitrary: s rs lastErr)
  case Nil
  then show ?case by simp
next
  case (Cons p pre)
  then show ?case
    by (auto split: prod.splits sum.splits simp: isl_def)
qed

lemma try_servers_all_fail:
  "attempt_each E servers s = (rs, s1) \<Longrightarrow> list_all isl rs \<Longrightarrow>
   try_servers E servers lastErr s =
     (case (if rs = [] then lastErr else Some (projl (last rs))) of
        Some err \<Rightarrow> (Err (Wrap ''failed to extract sources from all servers'' err), s1)
      | None \<Rightarrow> (Ok \<lparr>Sources = [], Subtitles = []\<rparr>, s1))"
proof (induction servers arbitrary: s rs lastErr)
  case Nil
  then show ?case by simp
next
  case (Cons p servers)
  then show ?case
    by (auto split: prod.splits sum.splits simp: isl_def)
qed

lemma try_servers_all_empty:
  "attempt_each E servers s = (rs, s1) \<Longrightarrow>
   list_all (\<lambda>r. case r of Inr (Some v) \<Rightarrow> Sources v = [] | _ \<Rightarrow> False) rs \<Longrightarrow>
   try_servers E servers lastErr s = try_servers E [] lastErr s1"
proof (induction servers arbitrary: s rs lastErr)
  case Nil
  then show ?case by simp
next
  case (Cons p servers)
  then show ?case
    by (auto split: prod.splits sum.splits option.splits)
qed

text \<open>
  C1. Let the discovered server list be \<open>pre @ server # post\<close>. If every server of \<open>pre\<close>,
  asked in turn, gives an extractor error, and \<open>server\<close>, asked next, gives a
  \<open>VideoSources\<close> \<open>v\<close> with at least one source, then \<open>FetchEpisodeSourcesWithMediaID\<close> returns
  exactly \<open>v\<close>, in the state that extraction left, and the servers whose extraction was
  entered during the call are \<open>pre\<close> and \<open>server\<close>, in this order: none of \<open>post\<close> is tried.
\<close>

theorem FetchEpisodeSources_first_success:
  assumes "FetchEpisodeServersWithMediaID E episodeID mediaID s = (Inr (pre @ server # post), s1)"
    and "attempt_each E pre s1 = (rs, s2)"
    and "list_all isl rs"
    and "extractSourcesFromServer E server s2 = (Inr (Some v), s3)"
    and "Sources v \<noteq> []"
  shows "FetchEpisodeSourcesWithMediaID E episodeID mediaID s = (Ok v, s3) \<and>
         invoked s3 = invoked s @ pre @ [server]"
proof -
  have "try_servers E (pre @ server # post) None s1 = (Ok v, s3)"
    using assms(2-5) by (rule try_servers_first_success)
  then have res: "FetchEpisodeSourcesWithMediaID E episodeID mediaID s = (Ok v, s3)"
    using assms(1) by (simp add: FetchEpisodeSourcesWithMediaID_def)
  have "invoked s1 = invoked s"
    using invoked_FetchEpisodeServersWithMediaID [of E episodeID mediaID s] assms(1) by simp
  moreover have "invoked s2 = invoked s1 @ pre"
    using invoked_attempt_each [of E pre s1] assms(2) by simp
  moreover have "invoked s3 = invoked s2 @ [server]"
    using invoked_extractSourcesFromServer [of E server s2] assms(4) by simp
  ultimately show ?thesis using res by simp
qed

theorem FetchEpisodeSources_first_success_witness:
  "fst (FetchEpisodeServersWithMediaID demo_env ''ep1'' ''movie/x'' demo_sflix) =
     Inr ([demo_server ''upcloud'' ''s1''] @ demo_server ''megacloud'' ''s2'' #
          [demo_server ''vidcloud'' ''s3'']) \<and>
   fst (FetchEpisodeSourcesWithMediaID demo_env ''ep1'' ''movie/x'' demo_sflix) = Ok demo_sources \<and>
   invoked (snd (FetchEpisodeSourcesWithMediaID demo_env ''ep1'' ''movie/x'' demo_sflix)) =
     [demo_server ''upcloud'' ''s1'', demo_server ''megacloud'' ''s2'']"
proof -
  define s1 where "s1 = snd (FetchEpisodeServersWithMediaID demo_env ''ep1'' ''movie/x'' demo_sflix)"
  define s2 where "s2 = snd (attempt_each demo_env [demo_server ''upcloud'' ''s1''] s1)"
  define s3 where
    "s3 = snd (extractSourcesFromServer demo_env (demo_server ''megacloud'' ''s2'') s2)"
  have h1: "FetchEpisodeServersWithMediaID demo_env ''ep1'' ''movie/x'' demo_sflix =
      (Inr ([demo_server ''upcloud'' ''s1''] @ demo_server ''megacloud'' ''s2'' #
            [demo_server ''vidcloud'' ''s3'']), s1)"
    unfolding s1_def by (simp add: prod_eq_iff demo_defs run_defs)
  have h2: "attempt_each demo_env [demo_server ''upcloud'' ''s1''] s1 =
      (fst (attempt_each demo_env [demo_server ''upcloud'' ''s1''] s1), s2)"
    unfolding s2_def by simp
  have h3: "list_all isl (fst (attempt_each demo_env [demo_server ''upcloud'' ''s1''] s1))"
    unfolding s1_def by (simp add: demo_defs run_defs)
  have h4: "extractSourcesFromServer demo_env (demo_server ''megacloud'' ''s2'') s2 =
      (Inr (Some demo_sources), s3)"
    unfolding s3_def s2_def s1_def by (simp add: prod_eq_iff demo_defs run_defs)
  have h5: "Sources demo_sources \<noteq> []"
    by (simp add: demo_sources_def)
  have "invoked demo_sflix = []"
    by (simp add: invoked_def demo_sflix_def)
  then show ?thesis
    using FetchEpisodeSources_first_success [OF h1 h2 h3 h4 h5] h1 by simp
qed

text \<open>
  C2. If the discovered server list is not empty and every server, asked in turn, gives an
  error, then \<open>FetchEpisodeSourcesWithMediaID\<close> returns an error and no \<open>VideoSources\<close>; the
  error wraps the error of the last server asked.
\<close>

theorem FetchEpisodeSources_all_fail:
  assumes "FetchEpisodeServersWithMediaID E episodeID mediaID s = (Inr servers, s1)"
    and "servers \<noteq> []"
    and "attempt_each E servers s1 = (rs, s2)"
    and "list_all isl rs"
  shows "FetchEpisodeSourcesWithMediaID E episodeID mediaID s =
           (Err (Wrap ''failed to extract sources from all servers'' (projl (last rs))), s2) \<and>
         last rs = fst (extractSourcesFromServer E (last servers)
                          (snd (attempt_each E (butlast servers) s1)))"
proof -
  have ne: "rs \<noteq> []"
    using assms(2,3) by (cases servers) (auto split: prod.splits)
  have "try_servers E servers None s1 =
      (Err (Wrap ''failed to extract sources from all servers'' (projl (last rs))), s2)"
    using try_servers_all_fail [OF assms(3,4), of None] ne by simp
  then have res: "FetchEpisodeSourcesWithMediaID E episodeID mediaID s =
      (Err (Wrap ''failed to extract sources from all servers'' (projl (last rs))), s2)"
    using assms(1,2) by (simp add: FetchEpisodeSourcesWithMediaID_def)
  have "fst (attempt_each E (butlast servers @ [last servers]) s1) = rs"
    using assms(2,3) by simp
  then have "last rs = fst (extractSourcesFromServer E (last servers)
      (snd (attempt_each E (butlast servers) s1)))"
    unfolding attempt_each_snoc by auto
  then show ?thesis using res by simp
qed

theorem FetchEpisodeSources_all_fail_witness:
  "fst (FetchEpisodeServersWithMediaID demo_env ''ep1'' ''movie/x'' demo_sflix_failing) =
     Inr [demo_server ''upcloud'' ''s1'', demo_server ''megacloud'' ''s2'',
          demo_server ''vidcloud'' ''s3''] \<and>
   fst (FetchEpisodeSourcesWithMediaID demo_env ''ep1'' ''movie/x'' demo_sflix_failing) =
     Err (Wrap ''failed to extract sources from all servers''
           (Wrap ''failed to extract from embed URL https://megacloud.tv/e/3''
             (External ''extraction failed'')))"
proof -
  define servers where "servers = [demo_server ''upcloud'' ''s1'', demo_server ''megacloud'' ''s2'',
          demo_server ''vidcloud'' ''s3'']"
  define s1 where
    "s1 = snd (FetchEpisodeServersWithMediaID demo_env ''ep1'' ''movie/x'' demo_sflix_failing)"
  define rs where "rs = fst (attempt_each demo_env servers s1)"
  have h1: "FetchEpisodeServersWithMediaID demo_env ''ep1'' ''movie/x'' demo_sflix_failing =
      (Inr servers, s1)"
    unfolding s1_def servers_def by (simp add: prod_eq_iff demo_defs run_defs)
  have h2: "servers \<noteq> []"
    by (simp add: servers_def)
  have h3: "attempt_each demo_env servers s1 = (rs, snd (attempt_each demo_env servers s1))"
    unfolding rs_def by simp
  have rs: "rs = [Inl (Wrap ''failed to fetch embed URL'' (External ''connection refused'')),
      Inl (Wrap ''failed to extract from embed URL https://megacloud.tv/e/2''
             (External ''extraction failed'')),
      Inl (Wrap ''failed to extract from embed URL https://megacloud.tv/e/3''
             (External ''extraction failed''))]"
    unfolding rs_def s1_def servers_def by (simp add: demo_defs run_defs)
  have h4: "list_all isl rs"
    by (simp add: rs)
  show ?thesis
    using FetchEpisodeSources_all_fail [OF h1 h2 h3 h4] h1 by (simp add: rs servers_def)
qed

text \<open>
  C3. If server discovery gives an empty list, or every discovered server, asked in turn,
  gives a \<open>VideoSources\<close> without sources and no error, then
  \<open>FetchEpisodeSourcesWithMediaID\<close> returns a \<open>VideoSources\<close> whose \<open>Sources\<close> and \<open>Subtitles\<close>
  are empty, with no error: an \<open>Ok\<close>, which no failure is.
\<close>

theorem FetchEpisodeSources_empty_not_error:
  assumes "FetchEpisodeServersWithMediaID E episodeID mediaID s = (Inr servers, s1)"
    and "attempt_each E servers s1 = (rs, s2)"
    and "servers = [] \<or>
         list_all (\<lambda>r. case r of Inr (Some v) \<Rightarrow> Sources v = [] | _ \<Rightarrow> False) rs"
  shows "FetchEpisodeSourcesWithMediaID E episodeID mediaID s =
           (Ok \<lparr>Sources = [], Subtitles = []\<rparr>, s2)"
proof (cases "servers = []")
  case True
  then show ?thesis
    using assms(1,2) by (simp add: FetchEpisodeSourcesWithMediaID_def)
next
  case False
  then have "try_servers E servers None s1 = try_servers E [] None s2"
    using try_servers_all_empty [OF assms(2), of None] assms(3) by simp
  then show ?thesis
    using assms(1) False by (simp add: FetchEpisodeSourcesWithMediaID_def)
qed

theorem FetchEpisodeSources_empty_not_error_witness:
  "fst (attempt_each demo_env
         [demo_server ''upcloud'' ''s1'', demo_server ''megacloud'' ''s2'',
          demo_server ''vidcloud'' ''s3'']
         (snd (FetchEpisodeServersWithMediaID demo_env ''ep1'' ''movie/x'' demo_sflix_empty))) =
     [Inr (Some \<lparr>Sources = [], Subtitles = []\<rparr>), Inr (Some \<lparr>Sources = [], Subtitles = []\<rparr>),
      Inr (Some \<lparr>Sources = [], Subtitles = []\<rparr>)] \<and>
   fst (FetchEpisodeSourcesWithMediaID demo_env ''ep1'' ''movie/x'' demo_sflix_empty) =
     Ok \<lparr>Sources = [], Subtitles = []\<rparr>"
proof -
  define servers where "servers = [demo_server ''upcloud'' ''s1'', demo_server ''megacloud'' ''s2'',
          demo_server ''vidcloud'' ''s3'']"
  define s1 where
    "s1 = snd (FetchEpisodeServersWithMediaID demo_env ''ep1'' ''movie/x'' demo_sflix_empty)"
  define rs where "rs = fst (attempt_each demo_env servers s1)"
  have h1: "FetchEpisodeServersWithMediaID demo_env ''ep1'' ''movie/x'' demo_sflix_empty =
      (Inr servers, s1)"
    unfolding s1_def servers_def by (simp add: prod_eq_iff demo_defs run_defs)
  have h2: "attempt_each demo_env servers s1 = (rs, snd (attempt_each demo_env servers s1))"
    unfolding rs_def by simp
  have rs: "rs = [Inr (Some \<lparr>Sources = [], Subtitles = []\<rparr>),
      Inr (Some \<lparr>Sources = [], Subtitles = []\<rparr>), Inr (Some \<lparr>Sources = [], Subtitles = []\<rparr>)]"
    unfolding rs_def s1_def servers_def by (simp add: demo_defs run_defs)
  have h3: "servers = [] \<or>
      list_all (\<lambda>r. case r of Inr (Some v) \<Rightarrow> Sources v = [] | _ \<Rightarrow> False) rs"
    by (simp add: rs)
  show ?thesis
    using FetchEpisodeSources_empty_not_error [OF h1 h2 h3] rs
    by (simp add: rs_def s1_def servers_def)
qed

section \<open>Quality selection\<close>

lemma select_quality_first:
  "select_quality E srcs t = Some src \<Longrightarrow>
   \<exists>i<length srcs. src = srcs ! i \<and> EqualFold E (Source_Quality (srcs ! i)) t \<and>
      (\<forall>j<i. \<not> EqualFold E (Source_Quality (srcs ! j)) t)"
proof (induction srcs)
  case Nil
  then show ?case by simp
next
  case (Cons a srcs)
  show ?case
  proof (cases "EqualFold E (Source_Quality a) t")
    case True
    then show ?thesis using Cons.prems by auto
  next
    case False
    then obtain i where i: "i < length srcs" "src = srcs ! i"
      "EqualFold E (Source_Quality (srcs ! i)) t"
      "\<forall>j<i. \<not> EqualFold E (Source_Quality (srcs ! j)) t"
      using Cons by auto
    have "\<forall>j<Suc i. \<not> EqualFold E (Source_Quality ((a # srcs) ! j)) t"
      using False i(4) by (auto simp: less_Suc_eq_0_disj)
    then show ?thesis using i by (intro exI [of _ "Suc i"]) auto
  qed
qed

lemma select_quality_none:
  "select_quality E srcs t = None \<Longrightarrow> \<forall>src\<in>set srcs. \<not> EqualFold E (Source_Quality src) t"
  by (induction srcs) (auto split: if_splits)

text \<open>
  C4. When the resolved source list is not empty, \<open>GetStreamURL\<close> succeeds, and the stream
  it returns is built from one source \<open>chosen\<close>: the first source of the list whose quality
  label is \<open>EqualFold\<close>-equal (Go's comparison ignoring case) to the target, the target
  being the literal \<open>auto\<close> when the requested quality is \<open>QualityAuto\<close> and the requested
  quality otherwise; when no source matches, the first source of the list.
\<close>

theorem GetStreamURL_selects_quality:
  assumes "GetSources E episodeID s = (Ok (AnyVideoSources v), s1)"
    and "Sources v \<noteq> []"
    and "target = (if quality = QualityAuto E then ''auto'' else quality)"
  shows "\<exists>stream chosen.
           GetStreamURL E ctx episodeID quality s = (Ok stream, s1) \<and>
           StreamURL_URL stream = Source_URL chosen \<and>
           StreamURL_Quality stream = Source_Quality chosen \<and>
           StreamURL_Referer stream = Source_Referer chosen \<and>
           StreamURL_Type stream =
             (if Source_IsM3U8 chosen then StreamTypeHLS else StreamTypeMP4) \<and>
           ((\<exists>i<length (Sources v). chosen = Sources v ! i \<and>
                EqualFold E (Source_Quality (Sources v ! i)) target \<and>
                (\<forall>j<i. \<not> EqualFold E (Source_Quality (Sources v ! j)) target)) \<or>
            (chosen = Sources v ! 0 \<and>
             (\<forall>src\<in>set (Sources v). \<not> EqualFold E (Source_Quality src) target)))"
proof -
  define chosen where
    "chosen = (case select_quality E (Sources v) target of Some src \<Rightarrow> src | None \<Rightarrow> Sources v ! 0)"
  define stream where
    "stream = \<lparr>StreamURL_URL = Source_URL chosen, StreamURL_Quality = Source_Quality chosen,
       StreamURL_Type = (if \<not> Source_IsM3U8 chosen then StreamTypeMP4 else StreamTypeHLS),
       StreamURL_Referer = Source_Referer chosen,
       StreamURL_Headers = [(''Referer'', Source_Referer chosen)],
       StreamURL_Subtitles =
         map (\<lambda>sub. \<lparr>Subtitle_Language = Sub_Lang sub, Subtitle_URL = Sub_URL sub\<rparr>)
           (Subtitles v)\<rparr>"
  have run: "GetStreamURL E ctx episodeID quality s = (Ok stream, s1)"
    using assms by (simp add: GetStreamURL_def Let_def chosen_def stream_def)
  have fields: "StreamURL_URL stream = Source_URL chosen"
    "StreamURL_Quality stream = Source_Quality chosen"
    "StreamURL_Referer stream = Source_Referer chosen"
    "StreamURL_Type stream = (if Source_IsM3U8 chosen then StreamTypeHLS else StreamTypeMP4)"
    by (simp_all add: stream_def)
  have which: "(\<exists>i<length (Sources v). chosen = Sources v ! i \<and>
        EqualFold E (Source_Quality (Sources v ! i)) target \<and>
        (\<forall>j<i. \<not> EqualFold E (Source_Quality (Sources v ! j)) target)) \<or>
      (chosen = Sources v ! 0 \<and>
       (\<forall>src\<in>set (Sources v). \<not> EqualFold E (Source_Quality src) target))"
  proof (cases "select_quality E (Sources v) target")
    case None
    then show ?thesis
      using select_quality_none [OF None] by (simp add: chosen_def)
  next
    case (Some src)
    then show ?thesis
      using select_quality_first [OF Some] by (simp add: chosen_def)
  qed
  show ?thesis
    using run fields which by blast
qed

theorem GetStreamURL_selects_quality_witness:
  "fst (GetSources demo_env ''ep1|movie/x'' demo_sflix) = Ok (AnyVideoSources demo_sources) \<and>
   fst (GetStreamURL demo_env (Context None) ''ep1|movie/x'' ''1080P'' demo_sflix) =
     Ok \<lparr>StreamURL_URL = ''https://cdn/1080.m3u8'', StreamURL_Quality = ''1080p'',
         StreamURL_Type = StreamTypeHLS, StreamURL_Referer = ''https://megacloud.tv/'',
         StreamURL_Headers = [(''Referer'', ''https://megacloud.tv/'')],
         StreamURL_Subtitles =
           [\<lparr>Subtitle_Language = ''English'', Subtitle_URL = ''https://cdn/en.vtt''\<rparr>]\<rparr> \<and>
   fst (GetStreamURL demo_env (Context None) ''ep1|movie/x'' ''480p'' demo_sflix) =
     Ok \<lparr>StreamURL_URL = ''https://cdn/720.m3u8'', StreamURL_Quality = ''720p'',
         StreamURL_Type = StreamTypeHLS, StreamURL_Referer = ''https://megacloud.tv/'',
         StreamURL_Headers = [(''Referer'', ''https://megacloud.tv/'')],
         StreamURL_Subtitles =
           [\<lparr>Subtitle_Language = ''English'', Subtitle_URL = ''https://cdn/en.vtt''\<rparr>]\<rparr>"
proof -
  define s1 where "s1 = snd (GetSources demo_env ''ep1|movie/x'' demo_sflix)"
  have h0: "fst (GetSources demo_env ''ep1|movie/x'' demo_sflix) = Ok (AnyVideoSources demo_sources)"
    by (simp add: GetSources_def demo_defs run_defs)
  have h1: "GetSources demo_env ''ep1|movie/x'' demo_sflix = (Ok (AnyVideoSources demo_sources), s1)"
    using h0 by (simp add: prod_eq_iff s1_def)
  have h2: "Sources demo_sources \<noteq> []"
    by (simp add: demo_sources_def)
  have h3: "''1080P'' = (if ''1080P'' = QualityAuto demo_env then ''auto'' else ''1080P'')"
    by (simp add: demo_env_def)
  have e1: "fst (GetStreamURL demo_env (Context None) ''ep1|movie/x'' ''1080P'' demo_sflix) =
     Ok \<lparr>StreamURL_URL = ''https://cdn/1080.m3u8'', StreamURL_Quality = ''1080p'',
         StreamURL_Type = StreamTypeHLS, StreamURL_Referer = ''https://megacloud.tv/'',
         StreamURL_Headers = [(''Referer'', ''https://megacloud.tv/'')],
         StreamURL_Subtitles =
           [\<lparr>Subtitle_Language = ''English'', Subtitle_URL = ''https://cdn/en.vtt''\<rparr>]\<rparr>"
    by (simp add: GetStreamURL_def h1 Let_def)
      (simp add: demo_env_def demo_sources_def ascii_EqualFold_def ascii_lower_def)
  have e2: "fst (GetStreamURL demo_env (Context None) ''ep1|movie/x'' ''480p'' demo_sflix) =
     Ok \<lparr>StreamURL_URL = ''https://cdn/720.m3u8'', StreamURL_Quality = ''720p'',
         StreamURL_Type = StreamTypeHLS, StreamURL_Referer = ''https://megacloud.tv/'',
         StreamURL_Headers = [(''Referer'', ''https://megacloud.tv/'')],
         StreamURL_Subtitles =
           [\<lparr>Subtitle_Language = ''English'', Subtitle_URL = ''https://cdn/en.vtt''\<rparr>]\<rparr>"
    by (simp add: GetStreamURL_def h1 Let_def)
      (simp add: demo_env_def demo_sources_def ascii_EqualFold_def ascii_lower_def)
  show ?thesis
    using GetStreamURL_selects_quality [OF h1 h2 h3, of "Context None"] h0 e1 e2
    by simp
qed

section \<open>The caches and the resolution calls\<close>

lemma frame_record_event:
  "record_event e (s\<lparr>searchCache := sc, infoCache := ic\<rparr>) =
     (record_event e s)\<lparr>searchCache := sc, infoCache := ic\<rparr>"
  by (simp add: record_event_def)

lemma frame_Client_Do:
  "Client_Do req (s\<lparr>searchCache := sc, infoCache := ic\<rparr>) =
     (fst (Client_Do req s), (snd (Client_Do req s))\<lparr>searchCache := sc, infoCache := ic\<rparr>)"
  by (simp add: Client_Do_def frame_record_event)

lemma frame_Extractor_Extract:
  "Extractor_Extract name url (s\<lparr>searchCache := sc, infoCache := ic\<rparr>) =
     (fst (Extractor_Extract name url s),
      (snd (Extractor_Extract name url s))\<lparr>searchCache := sc, infoCache := ic\<rparr>)"
  by (simp add: Extractor_Extract_def frame_record_event)

lemma BaseURL_record_event [simp]: "BaseURL (record_event e s) = BaseURL s"
  by (simp add: record_event_def)

lemma BaseURL_Client_Do [simp]: "BaseURL (snd (Client_Do req s)) = BaseURL s"
  by (simp add: Client_Do_def)

lemma frame_server_of_item:
  "server_of_item E (s\<lparr>searchCache := sc, infoCache := ic\<rparr>) mediaID isMovie sel servers =
     server_of_item E s mediaID isMovie sel servers"
  by (simp add: server_of_item_def Let_def split: option.splits)

lemma frame_server_items:
  "server_items E (s\<lparr>searchCache := sc, infoCache := ic\<rparr>) mediaID isMovie sel servers =
     server_items E s mediaID isMovie sel servers"
  by (induction sel arbitrary: servers) (simp_all add: frame_server_of_item)

lemma frame_FetchEpisodeServersWithMediaID:
  "FetchEpisodeServersWithMediaID E episodeID mediaID (s\<lparr>searchCache := sc, infoCache := ic\<rparr>) =
     (fst (FetchEpisodeServersWithMediaID E episodeID mediaID s),
      (snd (FetchEpisodeServersWithMediaID E episodeID mediaID s))
         \<lparr>searchCache := sc, infoCache := ic\<rparr>)"
  by (simp add: FetchEpisodeServersWithMediaID_def Let_def frame_Client_Do ajax_request_def
      frame_server_items case_prod_beta split: option.splits sum.splits)

lemma frame_extractSourcesFromServer:
  "extractSourcesFromServer E server (s\<lparr>searchCache := sc, infoCache := ic\<rparr>) =
     (fst (extractSourcesFromServer E server s),
      (snd (extractSourcesFromServer E server s))\<lparr>searchCache := sc, infoCache := ic\<rparr>)"
  by (simp add: extractSourcesFromServer_def Let_def frame_Client_Do frame_Extractor_Extract
      frame_record_event ajax_request_def case_prod_beta split: option.splits sum.splits)

lemma frame_try_servers:
  "try_servers E servers lastErr (s\<lparr>searchCache := sc, infoCache := ic\<rparr>) =
     (fst (try_servers E servers lastErr s),
      (snd (try_servers E servers lastErr s))\<lparr>searchCache := sc, infoCache := ic\<rparr>)"
proof (induction servers arbitrary: lastErr s)
  case Nil
  then show ?case by (simp split: option.splits)
next
  case (Cons server rest)
  then show ?case
    by (simp add: frame_extractSourcesFromServer case_prod_beta split: sum.splits option.splits)
qed

lemma frame_FetchEpisodeSourcesWithMediaID:
  "FetchEpisodeSourcesWithMediaID E episodeID mediaID (s\<lparr>searchCache := sc, infoCache := ic\<rparr>) =
     (fst (FetchEpisodeSourcesWithMediaID E episodeID mediaID s),
      (snd (FetchEpisodeSourcesWithMediaID E episodeID mediaID s))
         \<lparr>searchCache := sc, infoCache := ic\<rparr>)"
  by (simp add: FetchEpisodeSourcesWithMediaID_def frame_FetchEpisodeServersWithMediaID
      frame_try_servers case_prod_beta split: sum.splits)

lemma frame_GetSources:
  "GetSources E episodeID (s\<lparr>searchCache := sc, infoCache := ic\<rparr>) =
     (fst (GetSources E episodeID s),
      (snd (GetSources E episodeID s))\<lparr>searchCache := sc, infoCache := ic\<rparr>)"
  by (simp add: GetSources_def Let_def frame_FetchEpisodeSourcesWithMediaID case_prod_beta
      split: result.splits)

lemma frame_GetStreamURL:
  "GetStreamURL E ctx episodeID quality (s\<lparr>searchCache := sc, infoCache := ic\<rparr>) =
     (fst (GetStreamURL E ctx episodeID quality s),
      (snd (GetStreamURL E ctx episodeID quality s))\<lparr>searchCache := sc, infoCache := ic\<rparr>)"
  by (simp add: GetStreamURL_def Let_def frame_GetSources case_prod_beta
      split: result.splits any.splits)

lemma caches_unchanged:
  fixes f :: "SFlix \<Rightarrow> 'a \<times> SFlix"
  assumes "\<And>sc ic. f (s\<lparr>searchCache := sc, infoCache := ic\<rparr>) =
      (fst (f s), (snd (f s))\<lparr>searchCache := sc, infoCache := ic\<rparr>)"
  shows "searchCache (snd (f s)) = searchCache s \<and> infoCache (snd (f s)) = infoCache s"
proof -
  have "f s = (fst (f s), (snd (f s))\<lparr>searchCache := searchCache s, infoCache := infoCache s\<rparr>)"
    using assms [where sc = "searchCache s" and ic = "infoCache s"] by simp
  then have eq: "snd (f s) = (snd (f s))\<lparr>searchCache := searchCache s, infoCache := infoCache s\<rparr>"
    by (metis snd_conv)
  have "searchCache (snd (f s)) = searchCache s"
    by (subst eq) simp
  moreover have "infoCache (snd (f s)) = infoCache s"
    by (subst eq) simp
  ultimately show ?thesis by simp
qed

text \<open>
  C6. \<open>extractSourcesFromServer\<close>, \<open>FetchEpisodeSourcesWithMediaID\<close>, \<open>GetSources\<close> and
  \<open>GetStreamURL\<close> neither read nor write \<open>searchCache\<close> and \<open>infoCache\<close>: run with any other
  contents of the two caches they return the same result, do the same to the network, and
  hand back the caches they were given. So nothing a resolution obtains is kept in a cache,
  and each call resolves anew.
\<close>

theorem resolution_never_touches_caches:
  "extractSourcesFromServer E server (s\<lparr>searchCache := sc, infoCache := ic\<rparr>) =
     (fst (extractSourcesFromServer E server s),
      (snd (extractSourcesFromServer E server s))\<lparr>searchCache := sc, infoCache := ic\<rparr>) \<and>
   FetchEpisodeSourcesWithMediaID E episodeID mediaID (s\<lparr>searchCache := sc, infoCache := ic\<rparr>) =
     (fst (FetchEpisodeSourcesWithMediaID E episodeID mediaID s),
      (snd (FetchEpisodeSourcesWithMediaID E episodeID mediaID s))
         \<lparr>searchCache := sc, infoCache := ic\<rparr>) \<and>
   GetSources E episodeID (s\<lparr>searchCache := sc, infoCache := ic\<rparr>) =
     (fst (GetSources E episodeID s),
      (snd (GetSources E episodeID s))\<lparr>searchCache := sc, infoCache := ic\<rparr>) \<and>
   GetStreamURL E ctx episodeID quality (s\<lparr>searchCache := sc, infoCache := ic\<rparr>) =
     (fst (GetStreamURL E ctx episodeID quality s),
      (snd (GetStreamURL E ctx episodeID quality s))\<lparr>searchCache := sc, infoCache := ic\<rparr>) \<and>
   searchCache (snd (extractSourcesFromServer E server s)) = searchCache s \<and>
   infoCache (snd (extractSourcesFromServer E server s)) = infoCache s \<and>
   searchCache (snd (FetchEpisodeSourcesWithMediaID E episodeID mediaID s)) = searchCache s \<and>
   infoCache (snd (FetchEpisodeSourcesWithMediaID E episodeID mediaID s)) = infoCache s \<and>
   searchCache (snd (GetSources E episodeID s)) = searchCache s \<and>
   infoCache (snd (GetSources E episodeID s)) = infoCache s \<and>
   searchCache (snd (GetStreamURL E ctx episodeID quality s)) = searchCache s \<and>
   infoCache (snd (GetStreamURL E ctx episodeID quality s)) = infoCache s"
proof -
  note a = frame_extractSourcesFromServer [where E = E and server = server and s = s]
  note b = frame_FetchEpisodeSourcesWithMediaID
    [where E = E and episodeID = episodeID and mediaID = mediaID and s = s]
  note c = frame_GetSources [where E = E and episodeID = episodeID and s = s]
  note d = frame_GetStreamURL
    [where E = E and ctx = ctx and episodeID = episodeID and quality = quality and s = s]
  show ?thesis
    using a b c d
      caches_unchanged [where f = "extractSourcesFromServer E server" and s = s, OF a]
      caches_unchanged
        [where f = "FetchEpisodeSourcesWithMediaID E episodeID mediaID" and s = s, OF b]
      caches_unchanged [where f = "GetSources E episodeID" and s = s, OF c]
      caches_unchanged [where f = "GetStreamURL E ctx episodeID quality" and s = s, OF d]
    by simp
qed

section \<open>Season identifiers\<close>

lemmas info_defs = GetInfo_def info_page_def build_info_def fetchEpisodeList_def season_item_def
  page_request_def NewDocumentFromReader_def TrimPrefix_def TrimSuffix_def HasSuffix_def
  Atoi_def is_digit_def digits_val_def digit_val_def MinInt_def MaxInt_def

lemmas season_defs = GetSeasons_def GetEpisodes_def episodes_of_season_def split_seasonID_def
  sort_outer.simps sort_inner.simps Itoa_def digits.simps digit_char_def


lemma digit_char_cases:
  "d < 10 \<Longrightarrow> is_digit (digit_char d) \<and> digit_val (digit_char d) = d \<and> digit_char d \<noteq> CHR ''|''
     \<and> digit_char d \<noteq> CHR ''-'' \<and> digit_char d \<noteq> CHR ''+''"
proof -
  assume "d < 10"
  then have "d = 0 \<or> d = 1 \<or> d = 2 \<or> d = 3 \<or> d = 4 \<or> d = 5 \<or> d = 6 \<or> d = 7 \<or> d = 8 \<or> d = 9"
    by arith
  then show ?thesis
    by (auto simp: digit_char_def is_digit_def digit_val_def)
qed

lemma digits_ne [simp]: "digits n \<noteq> []"
  by (subst digits.simps) simp

lemma digits_all: "list_all is_digit (digits n)"
proof (induction n rule: digits.induct)
  case (1 n)
  show ?case
    using 1 digit_char_cases [of n] digit_char_cases [of "n mod 10"]
    by (subst digits.simps) auto
qed

lemma digits_val_snoc: "digits_val (ds @ [c]) = digits_val ds * 10 + digit_val c"
  by (simp add: digits_val_def)

lemma digits_val_digits: "digits_val (digits n) = n"
proof (induction n rule: digits.induct)
  case (1 n)
  show ?case
  proof (cases "n < 10")
    case True
    then show ?thesis
      using digit_char_cases [of n] by (subst digits.simps) (simp add: digits_val_def)
  next
    case False
    then show ?thesis
      using 1 digit_char_cases [of "n mod 10"]
      by (subst digits.simps) (simp add: digits_val_snoc)
  qed
qed

lemma digits_no_bar: "CHR ''|'' \<notin> set (digits n)"
proof (induction n rule: digits.induct)
  case (1 n)
  show ?case
    using 1 digit_char_cases [of n] digit_char_cases [of "n mod 10"]
    by (subst digits.simps) auto
qed

lemma hd_digits: "hd (digits n) \<noteq> CHR ''-'' \<and> hd (digits n) \<noteq> CHR ''+''"
proof (induction n rule: digits.induct)
  case (1 n)
  show ?case
    using 1 digit_char_cases [of n] digits.simps [of n]
    by (cases "n < 10") (auto simp: hd_append)
qed

lemma Itoa_no_bar: "CHR ''|'' \<notin> set (Itoa n)"
  by (simp add: Itoa_def digits_no_bar)

lemma Atoi_Itoa: "MinInt \<le> n \<Longrightarrow> n \<le> MaxInt \<Longrightarrow> Atoi (Itoa n) = Inr n"
proof (cases "n < 0")
  case True
  assume "MinInt \<le> n" "n \<le> MaxInt"
  then show ?thesis
    using True digits_all [of "nat (- n)"]
    by (simp add: Atoi_def Itoa_def digits_val_digits Let_def)
next
  case False
  assume "MinInt \<le> n" "n \<le> MaxInt"
  then show ?thesis
    using False digits_all [of "nat n"] hd_digits [of "nat n"]
    by (simp add: Atoi_def Itoa_def digits_val_digits Let_def)
qed

lemma Split_from_no_sep:
  "c \<notin> set a \<Longrightarrow> Split_from [c] cur a = [cur @ a]"
  by (induction a arbitrary: cur) (auto simp: HasPrefix_def)

lemma Split_from_one_sep:
  "c \<notin> set a \<Longrightarrow> c \<notin> set b \<Longrightarrow> Split_from [c] cur (a @ c # b) = [cur @ a, b]"
  by (induction a arbitrary: cur) (auto simp: HasPrefix_def Split_from_no_sep [of c b "[]", simplified])

lemma Contains_sep: "Contains (a @ c # b) [c]"
  by (induction a) (auto simp: HasPrefix_def)

lemma not_Contains_sep: "c \<notin> set a \<Longrightarrow> \<not> Contains a [c]"
  by (induction a) (auto simp: HasPrefix_def)

lemma split_seasonID_encoded:
  assumes "CHR ''|'' \<notin> set mediaID" "MinInt \<le> n" "n \<le> MaxInt"
  shows "split_seasonID (mediaID @ ''|'' @ Itoa n) = (mediaID, n)"
  using assms Split_from_one_sep [of "CHR ''|''" mediaID "Itoa n" "[]"] Itoa_no_bar [of n]
    Contains_sep [of mediaID "CHR ''|''" "Itoa n"]
  by (simp add: split_seasonID_def Split_def Atoi_Itoa)

lemma split_seasonID_plain:
  "CHR ''|'' \<notin> set mediaID \<Longrightarrow> split_seasonID mediaID = (mediaID, 1)"
  using not_Contains_sep [of "CHR ''|''" mediaID] by (simp add: split_seasonID_def)


lemma season_loop_acc: "set acc \<subseteq> set (season_loop mediaID eps m acc)"
proof (induction eps arbitrary: m acc)
  case Nil
  then show ?case by simp
next
  case (Cons e eps)
  define k where "k = (if Ep_Season e = 0 then 1 else Ep_Season e)"
  define new where "new = \<lparr>Season_ID = mediaID @ ''|'' @ Itoa k, Season_Number = k,
      Season_Title = ''Season '' @ Itoa k\<rparr>"
  have step: "season_loop mediaID (e # eps) m acc =
      (if \<not> m k then season_loop mediaID eps (m(k := True)) (acc @ [new])
       else season_loop mediaID eps m acc)"
    by (simp add: k_def new_def Let_def)
  have "set (acc @ [new]) \<subseteq> set (season_loop mediaID eps (m(k := True)) (acc @ [new]))"
    by (rule Cons.IH)
  moreover have "set acc \<subseteq> set (season_loop mediaID eps m acc)"
    by (rule Cons.IH)
  ultimately show ?case
    unfolding step by auto
qed

lemma season_loop_mem:
  "se \<in> set (season_loop mediaID eps m acc) \<Longrightarrow>
   se \<in> set acc \<or>
   (Season_ID se = mediaID @ ''|'' @ Itoa (Season_Number se) \<and>
    Season_Number se \<in> (\<lambda>ep. if Ep_Season ep = 0 then 1 else Ep_Season ep) ` set eps)"
proof (induction eps arbitrary: m acc)
  case Nil
  then show ?case by simp
next
  case (Cons ep eps)
  then show ?case
    by (fastforce simp: Let_def split: if_splits)
qed

lemma season_loop_complete:
  "\<forall>n. m n \<longrightarrow> n \<in> Season_Number ` set acc \<Longrightarrow> ep \<in> set eps \<Longrightarrow>
   (if Ep_Season ep = 0 then 1 else Ep_Season ep)
     \<in> Season_Number ` set (season_loop mediaID eps m acc)"
proof (induction eps arbitrary: m acc)
  case Nil
  then show ?case by simp
next
  case (Cons e eps)
  define k where "k = (if Ep_Season e = 0 then 1 else Ep_Season e)"
  define new where "new = \<lparr>Season_ID = mediaID @ ''|'' @ Itoa k, Season_Number = k,
      Season_Title = ''Season '' @ Itoa k\<rparr>"
  show ?case
  proof (cases "m k")
    case True
    then have step: "season_loop mediaID (e # eps) m acc = season_loop mediaID eps m acc"
      by (simp add: k_def Let_def)
    show ?thesis
    proof (cases "ep = e")
      case True
      have "k \<in> Season_Number ` set acc"
        using Cons.prems(1) \<open>m k\<close> by simp
      then have "k \<in> Season_Number ` set (season_loop mediaID eps m acc)"
        using season_loop_acc [of acc mediaID eps m] by auto
      then have "k \<in> Season_Number ` set (season_loop mediaID (e # eps) m acc)"
        by (subst step)
      then show ?thesis
        unfolding True k_def .
    next
      case False
      then have "ep \<in> set eps" using Cons.prems(2) by simp
      then have "(if Ep_Season ep = 0 then 1 else Ep_Season ep)
          \<in> Season_Number ` set (season_loop mediaID eps m acc)"
        by (rule Cons.IH [OF Cons.prems(1)])
      then show ?thesis
        by (subst step)
    qed
  next
    case False
    then have step: "season_loop mediaID (e # eps) m acc =
        season_loop mediaID eps (m(k := True)) (acc @ [new])"
      by (simp add: k_def new_def Let_def)
    have inv: "\<forall>n. (m(k := True)) n \<longrightarrow> n \<in> Season_Number ` set (acc @ [new])"
      using Cons.prems(1) by (auto simp: new_def)
    show ?thesis
    proof (cases "ep = e")
      case True
      have "k \<in> Season_Number ` set (acc @ [new])"
        by (simp add: new_def)
      then have "k \<in> Season_Number ` set (season_loop mediaID eps (m(k := True)) (acc @ [new]))"
        using season_loop_acc [of "acc @ [new]" mediaID eps "m(k := True)"] by auto
      then have "k \<in> Season_Number ` set (season_loop mediaID (e # eps) m acc)"
        by (subst step)
      then show ?thesis
        unfolding True k_def .
    next
      case False
      then have "ep \<in> set eps" using Cons.prems(2) by simp
      then have "(if Ep_Season ep = 0 then 1 else Ep_Season ep)
          \<in> Season_Number ` set (season_loop mediaID eps (m(k := True)) (acc @ [new]))"
        by (rule Cons.IH [OF inv])
      then show ?thesis
        by (subst step)
    qed
  qed
qed

lemma set_sort_inner: "i < j \<Longrightarrow> set (sort_inner seasons i j) = set seasons"
proof (induction seasons i j rule: sort_inner.induct)
  case (1 seasons i j)
  show ?case
  proof (cases "j < length seasons")
    case True
    then have "i < length seasons" using "1.prems" by simp
    then have "set (seasons[i := seasons ! j, j := seasons ! i]) = set seasons"
      using True by (simp add: set_swap)
    then show ?thesis
      using "1.IH" [OF True] "1.prems" True by (subst sort_inner.simps) simp
  next
    case False
    then show ?thesis by (subst sort_inner.simps) simp
  qed
qed

lemma set_sort_outer: "set (sort_outer seasons i) = set seasons"
proof (induction seasons i rule: sort_outer.induct)
  case (1 seasons i)
  show ?case
  proof (cases "i < length seasons")
    case True
    then show ?thesis
      using "1.IH" [OF True] set_sort_inner [of i "i + 1" seasons]
      by (subst sort_outer.simps) simp
  next
    case False
    then show ?thesis by (subst sort_outer.simps) simp
  qed
qed

text \<open>
  C7, as amended. Let \<open>mediaID\<close> contain no \<open>|\<close>, let \<open>GetInfo\<close> succeed for it, and let the
  season numbers of its episodes be Go \<open>int\<close>s. Then \<open>GetSeasons\<close> succeeds. For a media with
  episodes, the numbers of the seasons it returns are exactly the season numbers of the
  episodes (0 counted as 1), and the id of season \<open>n\<close> is \<open>mediaID|n\<close>. For a media without
  episodes it returns the single season 1, whose id is the bare \<open>mediaID\<close>. In both cases the
  code at the head of \<open>GetEpisodes\<close> derives from the id of a returned season exactly
  \<open>mediaID\<close> and its number \<open>n\<close>, so that \<open>GetEpisodes\<close> on that id is the listing of season \<open>n\<close>
  of \<open>mediaID\<close>.
\<close>

theorem season_id_round_trip:
  assumes "CHR ''|'' \<notin> set mediaID"
    and "GetInfo E mediaID s = (Inr (AnyMovieInfo movieInfo), s1)"
    and "\<forall>ep\<in>set (Info_Episodes movieInfo). MinInt \<le> Ep_Season ep \<and> Ep_Season ep \<le> MaxInt"
  shows "\<exists>seasons.
           GetSeasons E ctx mediaID s = (Inr seasons, s1) \<and>
           (if Info_Episodes movieInfo = []
            then seasons = [\<lparr>Season_ID = mediaID, Season_Number = 1, Season_Title = ''Season 1''\<rparr>]
            else Season_Number ` set seasons =
                   (\<lambda>ep. if Ep_Season ep = 0 then 1 else Ep_Season ep) `
                     set (Info_Episodes movieInfo) \<and>
                 (\<forall>season\<in>set seasons.
                    Season_ID season = mediaID @ ''|'' @ Itoa (Season_Number season))) \<and>
           (\<forall>season\<in>set seasons.
              split_seasonID (Season_ID season) = (mediaID, Season_Number season) \<and>
              (\<forall>ctx' t. GetEpisodes E ctx' (Season_ID season) t =
                           episodes_of_season E mediaID (Season_Number season) t))"
proof (cases "Info_Episodes movieInfo = []")
  case True
  then have "GetSeasons E ctx mediaID s =
      (Inr [\<lparr>Season_ID = mediaID, Season_Number = 1, Season_Title = ''Season 1''\<rparr>], s1)"
    using assms(2) by (simp add: GetSeasons_def)
  then show ?thesis
    using True split_seasonID_plain [OF assms(1)] by (simp add: GetEpisodes_def)
next
  case False
  define norm where "norm = (\<lambda>ep::types_Episode. if Ep_Season ep = 0 then 1 else Ep_Season ep)"
  define seasons where
    "seasons = sort_outer (season_loop mediaID (Info_Episodes movieInfo) (\<lambda>n. False) []) 0"
  have run: "GetSeasons E ctx mediaID s = (Inr seasons, s1)"
    using assms(2) False by (simp add: GetSeasons_def seasons_def)
  have set_eq: "set seasons = set (season_loop mediaID (Info_Episodes movieInfo) (\<lambda>n. False) [])"
    by (simp add: seasons_def set_sort_outer)
  have sub: "Season_Number ` set seasons \<subseteq> norm ` set (Info_Episodes movieInfo)"
    using season_loop_mem [of _ mediaID "Info_Episodes movieInfo" "\<lambda>n. False" "[]"]
    unfolding set_eq norm_def by auto
  have sup: "norm ` set (Info_Episodes movieInfo) \<subseteq> Season_Number ` set seasons"
  proof
    fix n
    assume "n \<in> norm ` set (Info_Episodes movieInfo)"
    then obtain ep where ep: "ep \<in> set (Info_Episodes movieInfo)" "n = norm ep"
      by auto
    have "norm ep \<in> Season_Number `
        set (season_loop mediaID (Info_Episodes movieInfo) (\<lambda>n. False) [])"
      unfolding norm_def by (rule season_loop_complete [OF _ ep(1)]) simp
    then show "n \<in> Season_Number ` set seasons"
      using ep(2) set_eq by simp
  qed
  have each: "Season_ID season = mediaID @ ''|'' @ Itoa (Season_Number season) \<and>
      split_seasonID (Season_ID season) = (mediaID, Season_Number season)"
    if "season \<in> set seasons" for season
  proof -
    have id: "Season_ID season = mediaID @ ''|'' @ Itoa (Season_Number season)"
      and mem: "Season_Number season \<in> norm ` set (Info_Episodes movieInfo)"
      using season_loop_mem [of season mediaID "Info_Episodes movieInfo" "\<lambda>n. False" "[]"] that
      unfolding set_eq norm_def by auto
    from mem obtain ep where ep: "ep \<in> set (Info_Episodes movieInfo)"
      "Season_Number season = norm ep" by auto
    have "MinInt \<le> norm ep \<and> norm ep \<le> MaxInt"
      using assms(3) ep(1) by (auto simp: norm_def MinInt_def MaxInt_def)
    then show ?thesis
      using id ep(2) split_seasonID_encoded [OF assms(1), of "Season_Number season"] by simp
  qed
  have nums: "Season_Number ` set seasons = norm ` set (Info_Episodes movieInfo)"
    using sub sup by blast
  have ids: "\<forall>season\<in>set seasons.
      Season_ID season = mediaID @ ''|'' @ Itoa (Season_Number season)"
    using each by blast
  have shape: "if Info_Episodes movieInfo = []
      then seasons = [\<lparr>Season_ID = mediaID, Season_Number = 1, Season_Title = ''Season 1''\<rparr>]
      else Season_Number ` set seasons =
             (\<lambda>ep. if Ep_Season ep = 0 then 1 else Ep_Season ep) `
               set (Info_Episodes movieInfo) \<and>
           (\<forall>season\<in>set seasons.
              Season_ID season = mediaID @ ''|'' @ Itoa (Season_Number season))"
    using ids nums [unfolded norm_def] by (simp only: False if_False simp_thms)
  have all: "\<forall>season\<in>set seasons.
      split_seasonID (Season_ID season) = (mediaID, Season_Number season) \<and>
      (\<forall>ctx' t. GetEpisodes E ctx' (Season_ID season) t =
                   episodes_of_season E mediaID (Season_Number season) t)"
  proof
    fix season
    assume m: "season \<in> set seasons"
    have e2: "split_seasonID (Season_ID season) = (mediaID, Season_Number season)"
      using each [OF m] by blast
    have e3: "GetEpisodes E ctx' (Season_ID season) t =
        episodes_of_season E mediaID (Season_Number season) t" for ctx' t
      unfolding GetEpisodes_def e2 by simp
    show "split_seasonID (Season_ID season) = (mediaID, Season_Number season) \<and>
      (\<forall>ctx' t. GetEpisodes E ctx' (Season_ID season) t =
                   episodes_of_season E mediaID (Season_Number season) t)"
      using e2 e3 by blast
  qed
  show ?thesis
    using run shape all by blast
qed

theorem season_id_round_trip_witness:
  "fst (GetSeasons demo_env (Context None) ''tv/show'' demo_sflix) =
     Inr [\<lparr>Season_ID = ''tv/show|1'', Season_Number = 1, Season_Title = ''Season 1''\<rparr>,
          \<lparr>Season_ID = ''tv/show|2'', Season_Number = 2, Season_Title = ''Season 2''\<rparr>] \<and>
   split_seasonID ''tv/show|1'' = (''tv/show'', 1) \<and>
   split_seasonID ''tv/show|2'' = (''tv/show'', 2) \<and>
   fst (GetEpisodes demo_env (Context None) ''tv/show|2'' demo_sflix) =
     Inr [\<lparr>Episode_ID = ''e21|tv/show'', Episode_Number = 1, Episode_Title = ''Return'',
           Episode_Season = 2\<rparr>]"
proof -
  define s1 where "s1 = snd (GetInfo demo_env ''tv/show'' demo_sflix)"
  have h1: "CHR ''|'' \<notin> set ''tv/show''"
    by simp
  have h2: "GetInfo demo_env ''tv/show'' demo_sflix = (Inr (AnyMovieInfo demo_show_info), s1)"
    unfolding s1_def
    by (simp add: prod_eq_iff) (simp add: info_defs demo_defs run_defs demo_show_info_def)
  have h3: "\<forall>ep\<in>set (Info_Episodes demo_show_info). MinInt \<le> Ep_Season ep \<and> Ep_Season ep \<le> MaxInt"
    by (simp add: demo_show_info_def MinInt_def MaxInt_def)
  have e1: "fst (GetSeasons demo_env (Context None) ''tv/show'' demo_sflix) =
     Inr [\<lparr>Season_ID = ''tv/show|1'', Season_Number = 1, Season_Title = ''Season 1''\<rparr>,
          \<lparr>Season_ID = ''tv/show|2'', Season_Number = 2, Season_Title = ''Season 2''\<rparr>]"
    by (simp add: GetSeasons_def h2) (simp add: demo_show_info_def season_defs)
  have e2: "split_seasonID ''tv/show|1'' = (''tv/show'', 1)"
    "split_seasonID ''tv/show|2'' = (''tv/show'', 2)"
    by (simp_all add: split_seasonID_def Split_def HasPrefix_def Atoi_def is_digit_def
        digits_val_def digit_val_def MinInt_def MaxInt_def)
  have e3: "fst (GetEpisodes demo_env (Context None) ''tv/show|2'' demo_sflix) =
     Inr [\<lparr>Episode_ID = ''e21|tv/show'', Episode_Number = 1, Episode_Title = ''Return'',
           Episode_Season = 2\<rparr>]"
    by (simp add: GetEpisodes_def e2 episodes_of_season_def h2) (simp add: demo_show_info_def)
  show ?thesis
    using season_id_round_trip [OF h1 h2 h3, of "Context None"] e1 e2 e3 by simp
qed

text \<open>
  The claim C7 as stated has \<open>GetSeasons\<close> emit \<open>mediaID|n\<close> for every media id. For a media
  without episodes (here the site has no page for the id, and the answer it gives instead
  has no watch id) the season that is returned carries the bare media id.
\<close>

theorem season_without_episodes_has_bare_id:
  "fst (GetInfo demo_env ''inception'' demo_sflix) =
     Inr (AnyMovieInfo
           \<lparr>Info_ID = ''tv/inception'', Info_URL = ''https://sflix.ps/tv/inception'',
            Info_Episodes = [], Info_Genres = [], Info_Type = ''tv'', Info_Title = [],
            Info_Image = [], Info_Description = [], Info_Rating = [], Info_ReleaseDate = [],
            Info_LastSeason = 0, Info_TotalEpisodesLastSeason = 0\<rparr>) \<and>
   fst (GetSeasons demo_env (Context None) ''inception'' demo_sflix) =
     Inr [\<lparr>Season_ID = ''inception'', Season_Number = 1, Season_Title = ''Season 1''\<rparr>] \<and>
   ''inception'' \<noteq> ''inception'' @ ''|'' @ Itoa 1"
  by (simp add: GetSeasons_def info_defs demo_defs run_defs)

section \<open>The metadata caches\<close>

lemma GetInfo_stores:
  "GetInfo E id' s = (Inr info, s1) \<Longrightarrow> \<exists>mi. info = AnyMovieInfo mi \<and> infoCache s1 id' = Some mi"
  by (auto simp: GetInfo_def split: option.splits prod.splits sum.splits)

lemma GetInfo_hit:
  "infoCache s id' = Some mi \<Longrightarrow> GetInfo E id' s = (Inr (AnyMovieInfo mi), s)"
  by (simp add: GetInfo_def)

lemma GetInfo_again:
  assumes "GetInfo E id' s = (Inr info, s1)"
  shows "GetInfo E id' (s1\<lparr>Client := net\<rparr>) = (Inr info, s1\<lparr>Client := net\<rparr>)"
proof -
  obtain mi where mi: "info = AnyMovieInfo mi" "infoCache s1 id' = Some mi"
    using GetInfo_stores [OF assms] by blast
  then have "infoCache (s1\<lparr>Client := net\<rparr>) id' = Some mi" by simp
  then show ?thesis
    using mi(1) by (simp add: GetInfo_hit)
qed

lemma GetMediaDetails_again:
  assumes "GetMediaDetails E ctx id' s = (Inr details, s1)"
  shows "GetMediaDetails E ctx' id' (s1\<lparr>Client := net\<rparr>) = (Inr details, s1\<lparr>Client := net\<rparr>)"
proof -
  obtain r t where g: "GetInfo E id' s = (r, t)"
    by (cases "GetInfo E id' s")
  obtain mi where r: "r = Inr (AnyMovieInfo mi)"
    using assms g by (cases r; simp add: GetMediaDetails_def split: any.splits)
  have t: "t = s1"
    and d: "details = \<lparr>MediaDetails_Media =
                  \<lparr>Media_ID = id', Media_Title = Info_Title mi,
                   Media_Type = (if Info_Type mi = ''tv'' then MediaTypeTV else MediaTypeMovie),
                   Media_PosterURL = Info_Image mi, Media_Year = 0,
                   Media_Synopsis = Info_Description mi,
                   Media_Genres = Info_Genres mi\<rparr>\<rparr>"
    using assms g r by (simp_all add: GetMediaDetails_def)
  have "GetInfo E id' (s1\<lparr>Client := net\<rparr>) = (Inr (AnyMovieInfo mi), s1\<lparr>Client := net\<rparr>)"
    using g r t by (simp add: GetInfo_again)
  then show ?thesis
    by (simp add: GetMediaDetails_def d)
qed

lemma Search_again:
  assumes "Search E ctx query s = (Inr results, s1)"
  shows "Search E ctx' query (s1\<lparr>Client := net\<rparr>) = (Inr results, s1\<lparr>Client := net\<rparr>)"
proof -
  have "searchCache s1 query = Some results"
    using assms
    by (auto simp: Search_def Let_def split: option.splits prod.splits sum.splits)
  then show ?thesis
    by (simp add: Search_def)
qed

lemma caches_Client_Do [simp]:
  "infoCache (snd (Client_Do req s)) = infoCache s"
  "searchCache (snd (Client_Do req s)) = searchCache s"
  by (simp_all add: Client_Do_def record_event_def)

lemma caches_info_page:
  "infoCache (snd (info_page E id' s)) = infoCache s \<and>
   searchCache (snd (info_page E id' s)) = searchCache s"
  by (simp add: info_page_def Let_def case_prod_beta split: option.splits sum.splits)

lemma GetInfo_failed:
  assumes "GetInfo E id' s = (Inl err, s1)"
  shows "infoCache s1 = infoCache s \<and> searchCache s1 = searchCache s"
proof -
  have none: "infoCache s id' = None"
    using assms by (cases "infoCache s id'") (simp_all add: GetInfo_def)
  obtain r t where p: "info_page E id' s = (r, t)"
    by (cases "info_page E id' s")
  have "s1 = t"
    using assms none p
    by (cases r) (auto simp: GetInfo_def split: sum.splits prod.splits)
  then show ?thesis
    using caches_info_page [of E id' s] p by simp
qed

lemma Search_failed:
  assumes "Search E ctx query s = (Inl err, s1)"
  shows "infoCache s1 = infoCache s \<and> searchCache s1 = searchCache s"
proof -
  have none: "searchCache s query = None"
    using assms by (cases "searchCache s query") (simp_all add: Search_def)
  define req where "req = page_request s (BaseURL s @ ''/search/'' @ ReplaceAll query '' '' ''-'')"
  have "s1 = s \<or> s1 = snd (Client_Do req s)"
    using assms none unfolding Search_def Let_def req_def
    by (auto split: option.splits sum.splits prod.splits)
  then show ?thesis
    by auto
qed

text \<open>
  C5, as amended. After a call of \<open>GetInfo\<close>, \<open>GetMediaDetails\<close> or \<open>Search\<close> that succeeded, a
  second call with the same id (the same query) returns the same value and leaves the
  adapter and the network as they are, whatever the network has become in between
  (\<open>net\<close>): it makes no request and sees no change upstream. A call that failed has stored
  nothing in either cache.
\<close>

theorem cached_metadata_is_reused:
  "(GetInfo E id' s = (Inr info, s1) \<longrightarrow>
      GetInfo E id' (s1\<lparr>Client := net\<rparr>) = (Inr info, s1\<lparr>Client := net\<rparr>)) \<and>
   (GetMediaDetails E ctx id' s = (Inr details, s1) \<longrightarrow>
      GetMediaDetails E ctx' id' (s1\<lparr>Client := net\<rparr>) = (Inr details, s1\<lparr>Client := net\<rparr>)) \<and>
   (Search E ctx query s = (Inr results, s1) \<longrightarrow>
      Search E ctx' query (s1\<lparr>Client := net\<rparr>) = (Inr results, s1\<lparr>Client := net\<rparr>)) \<and>
   (GetInfo E id' s = (Inl err, s1) \<longrightarrow>
      infoCache s1 = infoCache s \<and> searchCache s1 = searchCache s) \<and>
   (Search E ctx query s = (Inl err, s1) \<longrightarrow>
      infoCache s1 = infoCache s \<and> searchCache s1 = searchCache s)"
proof (intro conjI impI)
  assume "GetInfo E id' s = (Inr info, s1)"
  then show "GetInfo E id' (s1\<lparr>Client := net\<rparr>) = (Inr info, s1\<lparr>Client := net\<rparr>)"
    by (rule GetInfo_again)
next
  assume "GetMediaDetails E ctx id' s = (Inr details, s1)"
  then show "GetMediaDetails E ctx' id' (s1\<lparr>Client := net\<rparr>) =
      (Inr details, s1\<lparr>Client := net\<rparr>)"
    by (rule GetMediaDetails_again)
next
  assume "Search E ctx query s = (Inr results, s1)"
  then show "Search E ctx' query (s1\<lparr>Client := net\<rparr>) = (Inr results, s1\<lparr>Client := net\<rparr>)"
    by (rule Search_again)
next
  assume "GetInfo E id' s = (Inl err, s1)"
  then show "infoCache s1 = infoCache s" "searchCache s1 = searchCache s"
    using GetInfo_failed by blast+
next
  assume "Search E ctx query s = (Inl err, s1)"
  then show "infoCache s1 = infoCache s" "searchCache s1 = searchCache s"
    using Search_failed by blast+
qed

theorem cached_metadata_is_reused_witness:
  "fst (GetInfo demo_env ''tv/show'' demo_sflix) = Inr (AnyMovieInfo demo_show_info) \<and>
   GetInfo demo_env ''tv/show'' (goes_offline (snd (GetInfo demo_env ''tv/show'' demo_sflix))) =
     (Inr (AnyMovieInfo demo_show_info),
      goes_offline (snd (GetInfo demo_env ''tv/show'' demo_sflix))) \<and>
   fst (GetMediaDetails demo_env (Context None) ''tv/show'' demo_sflix) = Inr demo_details \<and>
   GetMediaDetails demo_env (Context None) ''tv/show''
       (goes_offline (snd (GetMediaDetails demo_env (Context None) ''tv/show'' demo_sflix))) =
     (Inr demo_details,
      goes_offline (snd (GetMediaDetails demo_env (Context None) ''tv/show'' demo_sflix))) \<and>
   fst (Search demo_env (Context None) ''some show'' demo_sflix) = Inr demo_results \<and>
   Search demo_env (Context None) ''some show''
       (goes_offline (snd (Search demo_env (Context None) ''some show'' demo_sflix))) =
     (Inr demo_results,
      goes_offline (snd (Search demo_env (Context None) ''some show'' demo_sflix))) \<and>
   fst (GetInfo demo_env ''tv/show'' demo_sflix_offline) =
     Inl (Wrap ''failed to fetch info'' (External ''connection refused'')) \<and>
   infoCache (snd (GetInfo demo_env ''tv/show'' demo_sflix_offline)) = Map.empty \<and>
   fst (Search demo_env (Context None) ''some show'' demo_sflix_offline) =
     Inl (Wrap ''failed to fetch search results'' (External ''connection refused'')) \<and>
   searchCache (snd (Search demo_env (Context None) ''some show'' demo_sflix_offline)) = Map.empty"
proof -
  define sI where "sI = snd (GetInfo demo_env ''tv/show'' demo_sflix)"
  define sD where "sD = snd (GetMediaDetails demo_env (Context None) ''tv/show'' demo_sflix)"
  define sS where "sS = snd (Search demo_env (Context None) ''some show'' demo_sflix)"
  define fI where "fI = snd (GetInfo demo_env ''tv/show'' demo_sflix_offline)"
  define fS where "fS = snd (Search demo_env (Context None) ''some show'' demo_sflix_offline)"
  define off where "off = (\<lambda>(history::event list) (req::request). (Inl (External ''connection refused'') :: error + response))"
  have off: "goes_offline t = t\<lparr>Client := (Client t)\<lparr>respond := off\<rparr>\<rparr>" for t
    by (simp add: goes_offline_def off_def)
  have gi0: "fst (GetInfo demo_env ''tv/show'' demo_sflix) = Inr (AnyMovieInfo demo_show_info)"
    by (simp add: info_defs demo_defs run_defs demo_show_info_def)
  have gi: "GetInfo demo_env ''tv/show'' demo_sflix = (Inr (AnyMovieInfo demo_show_info), sI)"
    using gi0 by (simp add: prod_eq_iff sI_def)
  have gd0: "fst (GetMediaDetails demo_env (Context None) ''tv/show'' demo_sflix) = Inr demo_details"
    by (simp add: GetMediaDetails_def gi demo_details_def demo_show_info_def)
  have gd: "GetMediaDetails demo_env (Context None) ''tv/show'' demo_sflix = (Inr demo_details, sD)"
    using gd0 by (simp add: prod_eq_iff sD_def)
  have se0: "fst (Search demo_env (Context None) ''some show'' demo_sflix) = Inr demo_results"
    by (simp add: Search_def search_item_def ReplaceAll_def info_defs demo_defs run_defs
        demo_results_def)
  have se: "Search demo_env (Context None) ''some show'' demo_sflix = (Inr demo_results, sS)"
    using se0 by (simp add: prod_eq_iff sS_def)
  have fi0: "fst (GetInfo demo_env ''tv/show'' demo_sflix_offline) =
      Inl (Wrap ''failed to fetch info'' (External ''connection refused''))"
    by (simp add: info_defs demo_defs run_defs)
  have fi: "GetInfo demo_env ''tv/show'' demo_sflix_offline =
      (Inl (Wrap ''failed to fetch info'' (External ''connection refused'')), fI)"
    using fi0 by (simp add: prod_eq_iff fI_def)
  have fs0: "fst (Search demo_env (Context None) ''some show'' demo_sflix_offline) =
      Inl (Wrap ''failed to fetch search results'' (External ''connection refused''))"
    by (simp add: Search_def ReplaceAll_def info_defs demo_defs run_defs)
  have fs: "Search demo_env (Context None) ''some show'' demo_sflix_offline =
      (Inl (Wrap ''failed to fetch search results'' (External ''connection refused'')), fS)"
    using fs0 by (simp add: prod_eq_iff fS_def)
  have c0: "infoCache demo_sflix_offline = Map.empty" "searchCache demo_sflix_offline = Map.empty"
    by (simp_all add: demo_sflix_offline_def demo_sflix_def)
  note t1 = cached_metadata_is_reused [where E = demo_env and id' = "''tv/show''"
      and s = demo_sflix and ?s1.0 = sI and info = "AnyMovieInfo demo_show_info"
      and net = "(Client sI)\<lparr>respond := off\<rparr>"]
  note t2 = cached_metadata_is_reused [where E = demo_env and id' = "''tv/show''"
      and s = demo_sflix and ?s1.0 = sD and details = demo_details and ctx = "Context None"
      and ctx' = "Context None" and net = "(Client sD)\<lparr>respond := off\<rparr>"]
  note t3 = cached_metadata_is_reused [where E = demo_env and query = "''some show''"
      and s = demo_sflix and ?s1.0 = sS and results = demo_results and ctx = "Context None"
      and ctx' = "Context None" and net = "(Client sS)\<lparr>respond := off\<rparr>"]
  note t4 = cached_metadata_is_reused [where E = demo_env and id' = "''tv/show''"
      and s = demo_sflix_offline and ?s1.0 = fI
      and err = "Wrap ''failed to fetch info'' (External ''connection refused'')"]
  note t5 = cached_metadata_is_reused [where E = demo_env and query = "''some show''"
      and ctx = "Context None" and s = demo_sflix_offline and ?s1.0 = fS
      and err = "Wrap ''failed to fetch search results'' (External ''connection refused'')"]
  have r1: "GetInfo demo_env ''tv/show'' (goes_offline sI) =
      (Inr (AnyMovieInfo demo_show_info), goes_offline sI)"
    unfolding off using t1 gi by blast
  have r2: "GetMediaDetails demo_env (Context None) ''tv/show'' (goes_offline sD) =
      (Inr demo_details, goes_offline sD)"
    unfolding off using t2 gd by blast
  have r3: "Search demo_env (Context None) ''some show'' (goes_offline sS) =
      (Inr demo_results, goes_offline sS)"
    unfolding off using t3 se by blast
  have r4: "infoCache fI = Map.empty"
    using t4 fi c0 by simp
  have r5: "searchCache fS = Map.empty"
    using t5 fs c0 by simp
  show ?thesis
    using gi0 gd0 se0 fi0 fs0 r1 r2 r3 r4 r5
    unfolding sI_def sD_def sS_def fI_def fS_def by blast
qed

text \<open>
  The claim C5 as stated, for every media id, fails where the first call fails: with the
  site unreachable \<open>GetMediaDetails\<close> makes two requests and returns an error; the second
  call fetches again (four more requests once the site is back) and its result is the
  error or the details according to the state of the site at that moment.
\<close>

theorem failed_call_is_fetched_again:
  "fst (GetMediaDetails demo_env (Context None) ''tv/show'' demo_sflix_offline) =
     Inl (Wrap ''failed to fetch info'' (External ''connection refused'')) \<and>
   length (trace (Client demo_after_failure)) = 2 \<and>
   fst (GetMediaDetails demo_env (Context None) ''tv/show'' demo_after_failure) =
     Inl (Wrap ''failed to fetch info'' (External ''connection refused'')) \<and>
   fst (GetMediaDetails demo_env (Context None) ''tv/show'' (comes_online demo_after_failure)) =
     Inr demo_details \<and>
   length (trace (Client (snd (GetMediaDetails demo_env (Context None) ''tv/show''
                                 (comes_online demo_after_failure))))) = 6"
  by (simp add: demo_after_failure_def comes_online_def GetMediaDetails_def demo_details_def
      info_defs demo_defs run_defs)

section \<open>Loading the registry\<close>

lemmas registry_defs = Load_def register_known_def register_def GetConfigDir_def getConfigDir_def
  getHomeDir_def Ext_def TrimRight_def New_def Get_def Let_def HasPrefix_def demo_settings_def
  demo_config_def demo_entries_def demo_plugin_name_def demo_host_def demo_ReadDir_def
  demo_host_plugins_def demo_host_broken_def demo_host_fatal_def demo_host_empty_def
  demo_host_unreadable_def

lemma find_snoc:
  "find P (xs @ [x]) = (case find P xs of Some y \<Rightarrow> Some y | None \<Rightarrow> if P x then Some x else None)"
  by (induction xs) auto

lemma register_local:
  "Enabled settings \<Longrightarrow> Mode settings \<noteq> ''remote'' \<Longrightarrow>
   providers (register name settings (Some p) mediaType r) = (providers r)(name \<mapsto> p)"
  by (simp add: register_def)

lemma load_files_ending:
  "fst (load_files H cfg luaDir files r loaded) =
     (if takeWhile (\<lambda>path. lua_New H path \<noteq> None)
           (map (\<lambda>file. Join H [luaDir, entry_Name file])
              (filter (\<lambda>file. \<not> entry_IsDir file \<and> Ext (entry_Name file) = ''.lua'') files)) =
         map (\<lambda>file. Join H [luaDir, entry_Name file])
           (filter (\<lambda>file. \<not> entry_IsDir file \<and> Ext (entry_Name file) = ''.lua'') files)
      then Returned else Panicked)"
  by (induction files arbitrary: r loaded) (auto simp: Let_def split: option.splits)

lemma load_files_loaded:
  "snd (snd (load_files H cfg luaDir files r loaded)) =
     loaded @
     take (Suc (length (takeWhile (\<lambda>path. lua_New H path \<noteq> None)
                          (map (\<lambda>file. Join H [luaDir, entry_Name file])
                             (filter (\<lambda>file. \<not> entry_IsDir file \<and> Ext (entry_Name file) = ''.lua'')
                                files)))))
       (map (\<lambda>file. Join H [luaDir, entry_Name file])
          (filter (\<lambda>file. \<not> entry_IsDir file \<and> Ext (entry_Name file) = ''.lua'') files))"
  by (induction files arbitrary: r loaded) (auto simp: Let_def split: option.splits)

lemma load_files_providers:
  assumes "Enabled (cfg_Lua (Providers cfg))" "Mode (cfg_Lua (Providers cfg)) \<noteq> ''remote''"
  shows "providers (fst (snd (load_files H cfg luaDir files r loaded))) name =
     (case find (\<lambda>lp. lua_Name H lp = name)
             (rev (List.map_filter (lua_New H)
                (takeWhile (\<lambda>path. lua_New H path \<noteq> None)
                   (map (\<lambda>file. Join H [luaDir, entry_Name file])
                      (filter (\<lambda>file. \<not> entry_IsDir file \<and> Ext (entry_Name file) = ''.lua'')
                         files))))) of
        Some lp \<Rightarrow> Some (Lua lp)
      | None \<Rightarrow> providers r name)"
proof (induction files arbitrary: r loaded)
  case Nil
  then show ?case by (simp add: List.map_filter_simps)
next
  case (Cons f files)
  show ?case
  proof (cases "\<not> entry_IsDir f \<and> Ext (entry_Name f) = ''.lua''")
    case False
    then show ?thesis using Cons by auto
  next
    case True
    show ?thesis
    proof (cases "lua_New H (Join H [luaDir, entry_Name f])")
      case None
      then show ?thesis
        using True by (simp add: Let_def List.map_filter_simps)
    next
      case (Some lp)
      then show ?thesis
        using True
          Cons [of "register (lua_Name H lp) (cfg_Lua (Providers cfg)) (Some (Lua lp))
                      (lua_Type H lp) r" "loaded @ [Join H [luaDir, entry_Name f]]"]
        by (simp add: Let_def List.map_filter_simps find_snoc register_local [OF assms]
            split: option.splits)
    qed
  qed
qed

text \<open>
  C8, as amended. \<open>Load\<close> registers the known providers and then reads the plugin directory
  \<open>luaProviders\<close> under the configuration directory, once. If reading it fails, \<open>Load\<close>
  returns with the registry of the known providers and no plugin loaded: the failure is not
  fatal, and it is not reported. Otherwise \<open>paths\<close> are the entries that are not directories
  and have the extension \<open>.lua\<close>, in the order of the directory; \<open>luaprovider.New\<close> is called
  once for each of them in turn and for nothing else, up to and including the first for
  which it does not return. \<open>Load\<close> makes no check of its own for a failed load: when
  \<open>luaprovider.New\<close> does not return, \<open>Load\<close> ends with that panic, and every adapter that
  \<open>luaprovider.New\<close> returned is registered (with the Lua settings enabled and not remote)
  under the name it reports, the later of two adapters reporting one name, and an adapter
  rather than a known provider of that name; every other name keeps the provider it had.
\<close>

theorem Load_scans_plugin_directory:
  assumes "luaDir = Join H [GetConfigDir H, ''luaProviders'']"
    and "paths = map (\<lambda>file. Join H [luaDir, entry_Name file])
                   (filter (\<lambda>file. \<not> entry_IsDir file \<and> Ext (entry_Name file) = ''.lua'') files)"
    and "returned = takeWhile (\<lambda>path. lua_New H path \<noteq> None) paths"
  shows
    "(ReadDir H luaDir = Inl err \<longrightarrow> Load H cfg r = (Returned, register_known cfg r, [])) \<and>
     (ReadDir H luaDir = Inr files \<longrightarrow>
        fst (Load H cfg r) = (if returned = paths then Returned else Panicked) \<and>
        snd (snd (Load H cfg r)) = take (Suc (length returned)) paths \<and>
        (Enabled (cfg_Lua (Providers cfg)) \<and> Mode (cfg_Lua (Providers cfg)) \<noteq> ''remote'' \<longrightarrow>
           (\<forall>name. providers (fst (snd (Load H cfg r))) name =
              (case find (\<lambda>lp. lua_Name H lp = name)
                      (rev (List.map_filter (lua_New H) returned)) of
                 Some lp \<Rightarrow> Some (Lua lp)
               | None \<Rightarrow> providers (register_known cfg r) name))))"
proof (intro conjI impI allI)
  assume "ReadDir H luaDir = Inl err"
  then show "Load H cfg r = (Returned, register_known cfg r, [])"
    using assms(1) by (simp add: Load_def Let_def)
next
  assume "ReadDir H luaDir = Inr files"
  then have "Load H cfg r = load_files H cfg luaDir files (register_known cfg r) []"
    using assms(1) by (simp add: Load_def Let_def)
  then show "fst (Load H cfg r) = (if returned = paths then Returned else Panicked)"
    using load_files_ending [of H cfg luaDir files "register_known cfg r" "[]"] assms(2,3)
    by simp
next
  assume "ReadDir H luaDir = Inr files"
  then have "Load H cfg r = load_files H cfg luaDir files (register_known cfg r) []"
    using assms(1) by (simp add: Load_def Let_def)
  then show "snd (snd (Load H cfg r)) = take (Suc (length returned)) paths"
    using load_files_loaded [of H cfg luaDir files "register_known cfg r" "[]"] assms(2,3)
    by simp
next
  fix name
  assume rd: "ReadDir H luaDir = Inr files"
    and lua: "Enabled (cfg_Lua (Providers cfg)) \<and> Mode (cfg_Lua (Providers cfg)) \<noteq> ''remote''"
  have "Load H cfg r = load_files H cfg luaDir files (register_known cfg r) []"
    using rd assms(1) by (simp add: Load_def Let_def)
  then show "providers (fst (snd (Load H cfg r))) name =
      (case find (\<lambda>lp. lua_Name H lp = name) (rev (List.map_filter (lua_New H) returned)) of
         Some lp \<Rightarrow> Some (Lua lp)
       | None \<Rightarrow> providers (register_known cfg r) name)"
    using load_files_providers [of cfg H luaDir files "register_known cfg r" "[]" name] lua
      assms(2,3)
    by simp
qed

theorem Load_scans_plugin_directory_witness:
  "ReadDir demo_host_plugins ''/cfg/luaProviders'' = Inr demo_entries \<and>
   fst (Load demo_host_plugins demo_config New) = Returned \<and>
   snd (snd (Load demo_host_plugins demo_config New)) =
     [''/cfg/luaProviders/alpha.lua'', ''/cfg/luaProviders/sflix.lua''] \<and>
   Get (fst (snd (Load demo_host_plugins demo_config New))) ''alpha'' =
     Inr (Lua (Plugin ''/cfg/luaProviders/alpha.lua'')) \<and>
   Get (fst (snd (Load demo_host_plugins demo_config New))) ''sflix'' =
     Inr (Lua (Plugin ''/cfg/luaProviders/sflix.lua'')) \<and>
   Get (fst (snd (Load demo_host_plugins demo_config New))) ''flixhq'' =
     Inr (Builtin ''movies/flixhq'') \<and>
   ReadDir demo_host_unreadable ''/cfg/luaProviders'' = Inl (External ''permission denied'') \<and>
   Load demo_host_unreadable demo_config New = (Returned, register_known demo_config New, []) \<and>
   Get (fst (snd (Load demo_host_unreadable demo_config New))) ''sflix'' =
     Inr (Builtin ''movies/sflix'') \<and>
   lua_New demo_host_fatal ''/cfg/luaProviders/alpha.lua'' = None \<and>
   fst (Load demo_host_fatal demo_config New) = Panicked \<and>
   snd (snd (Load demo_host_fatal demo_config New)) = [''/cfg/luaProviders/alpha.lua'']"
proof -
  define paths where "paths = [''/cfg/luaProviders/alpha.lua'', ''/cfg/luaProviders/sflix.lua'']"
  have d1: "''/cfg/luaProviders'' = Join demo_host_plugins [GetConfigDir demo_host_plugins, ''luaProviders'']"
    by (simp add: registry_defs)
  have d2: "''/cfg/luaProviders'' =
      Join demo_host_unreadable [GetConfigDir demo_host_unreadable, ''luaProviders'']"
    by (simp add: registry_defs)
  have r1: "ReadDir demo_host_plugins ''/cfg/luaProviders'' = Inr demo_entries"
    by (simp add: registry_defs)
  have r2: "ReadDir demo_host_unreadable ''/cfg/luaProviders'' = Inl (External ''permission denied'')"
    by (simp add: registry_defs)
  have p1: "paths = map (\<lambda>file. Join demo_host_plugins [''/cfg/luaProviders'', entry_Name file])
      (filter (\<lambda>file. \<not> entry_IsDir file \<and> Ext (entry_Name file) = ''.lua'') demo_entries)"
    by (simp add: paths_def registry_defs)
  have p2: "paths = takeWhile (\<lambda>path. lua_New demo_host_plugins path \<noteq> None) paths"
    by (simp add: paths_def registry_defs)
  have lua: "Enabled (cfg_Lua (Providers demo_config)) \<and>
      Mode (cfg_Lua (Providers demo_config)) \<noteq> ''remote''"
    by (simp add: demo_config_def demo_settings_def)
  note t1 = Load_scans_plugin_directory [OF d1 p1 p2, where cfg = demo_config and r = New]
  note t2 = Load_scans_plugin_directory [OF d2 refl refl, where cfg = demo_config and r = New
      and err = "External ''permission denied''"]
  have ending: "fst (Load demo_host_plugins demo_config New) = Returned"
    using t1 r1 by simp
  have loaded: "snd (snd (Load demo_host_plugins demo_config New)) = paths"
    using t1 r1 by (simp add: paths_def)
  have prov: "providers (fst (snd (Load demo_host_plugins demo_config New))) name =
      (case find (\<lambda>lp. lua_Name demo_host_plugins lp = name)
              (rev (List.map_filter (lua_New demo_host_plugins) paths)) of
         Some lp \<Rightarrow> Some (Lua lp)
       | None \<Rightarrow> providers (register_known demo_config New) name)" for name
    using t1 r1 lua by blast
  have adapters: "List.map_filter (lua_New demo_host_plugins) paths =
      [Plugin ''/cfg/luaProviders/alpha.lua'', Plugin ''/cfg/luaProviders/sflix.lua'']"
    by (simp add: paths_def List.map_filter_simps registry_defs)
  have g1: "Get (fst (snd (Load demo_host_plugins demo_config New))) ''alpha'' =
      Inr (Lua (Plugin ''/cfg/luaProviders/alpha.lua''))"
    unfolding Get_def prov adapters
    by (simp add: demo_host_plugins_def demo_host_def demo_plugin_name_def Split_def HasPrefix_def
        TrimSuffix_def HasSuffix_def)
  have g2: "Get (fst (snd (Load demo_host_plugins demo_config New))) ''sflix'' =
      Inr (Lua (Plugin ''/cfg/luaProviders/sflix.lua''))"
    unfolding Get_def prov adapters
    by (simp add: demo_host_plugins_def demo_host_def demo_plugin_name_def Split_def HasPrefix_def
        TrimSuffix_def HasSuffix_def)
  have g3: "Get (fst (snd (Load demo_host_plugins demo_config New))) ''flixhq'' =
      Inr (Builtin ''movies/flixhq'')"
    unfolding Get_def prov adapters
    by (simp add: demo_host_plugins_def demo_host_def demo_plugin_name_def Split_def HasPrefix_def
        TrimSuffix_def HasSuffix_def registry_defs)
  have u1: "Load demo_host_unreadable demo_config New = (Returned, register_known demo_config New, [])"
    using t2 r2 by blast
  have u2: "Get (fst (snd (Load demo_host_unreadable demo_config New))) ''sflix'' =
      Inr (Builtin ''movies/sflix'')"
    unfolding u1
    by (simp add: registry_defs)
  have d3: "''/cfg/luaProviders'' = Join demo_host_fatal [GetConfigDir demo_host_fatal, ''luaProviders'']"
    by (simp add: registry_defs)
  have r3: "ReadDir demo_host_fatal ''/cfg/luaProviders'' = Inr demo_entries"
    by (simp add: registry_defs)
  have p3: "paths = map (\<lambda>file. Join demo_host_fatal [''/cfg/luaProviders'', entry_Name file])
      (filter (\<lambda>file. \<not> entry_IsDir file \<and> Ext (entry_Name file) = ''.lua'') demo_entries)"
    by (simp add: paths_def registry_defs)
  have p4: "[] = takeWhile (\<lambda>path. lua_New demo_host_fatal path \<noteq> None) paths"
    by (simp add: paths_def registry_defs)
  have n3: "lua_New demo_host_fatal ''/cfg/luaProviders/alpha.lua'' = None"
    by (simp add: registry_defs)
  note t3 = Load_scans_plugin_directory [OF d3 p3 p4, where cfg = demo_config and r = New]
  have f1: "fst (Load demo_host_fatal demo_config New) = Panicked"
    using t3 r3 by (simp add: paths_def)
  have f2: "snd (snd (Load demo_host_fatal demo_config New)) = [''/cfg/luaProviders/alpha.lua'']"
    using t3 r3 by (simp add: paths_def)
  show ?thesis
    using r1 ending loaded g1 g2 g3 r2 u1 u2 n3 f1 f2 unfolding paths_def by blast
qed

text \<open>
  The claim C8 as stated fails in each of its clauses about failures. A failure to read the
  directory is not reported: the run of \<open>Load\<close> on an unreadable plugin directory is, in
  result and effect, the run on an empty one. A plugin that fails to load is not left out
  with the rest registered: where \<open>luaprovider.New\<close> returns the adapter of the failed
  script, \<open>Load\<close> registers it, here under \<open>Unknown\<close>; where \<open>luaprovider.New\<close> does not return,
  \<open>Load\<close> ends in the panic, before \<open>sflix.lua\<close> is loaded. And a provider does not always
  remain registered: the plugin of \<open>sflix.lua\<close> takes the place of the known provider
  \<open>sflix\<close>.
\<close>

theorem Load_failures_counterexample:
  "ReadDir demo_host_unreadable (Join demo_host_unreadable
       [GetConfigDir demo_host_unreadable, ''luaProviders'']) = Inl (External ''permission denied'') \<and>
   ReadDir demo_host_empty (Join demo_host_empty
       [GetConfigDir demo_host_empty, ''luaProviders'']) = Inr [] \<and>
   Load demo_host_unreadable demo_config New = Load demo_host_empty demo_config New \<and>
   lua_New demo_host_broken ''/cfg/luaProviders/alpha.lua'' =
     Some (BrokenPlugin ''/cfg/luaProviders/alpha.lua'') \<and>
   fst (Load demo_host_broken demo_config New) = Returned \<and>
   Get (fst (snd (Load demo_host_broken demo_config New))) ''Unknown'' =
     Inr (Lua (BrokenPlugin ''/cfg/luaProviders/alpha.lua'')) \<and>
   Get (fst (snd (Load demo_host_broken demo_config New))) ''sflix'' =
     Inr (Lua (Plugin ''/cfg/luaProviders/sflix.lua'')) \<and>
   lua_New demo_host_fatal ''/cfg/luaProviders/alpha.lua'' = None \<and>
   Load demo_host_fatal demo_config New =
     (Panicked, register_known demo_config New, [''/cfg/luaProviders/alpha.lua''])"
  by (simp add: registry_defs Split_def TrimSuffix_def HasSuffix_def)

section \<open>Health check and listings\<close>

text \<open>
  C9. \<open>HealthCheck\<close> returns nil for every context and every adapter state, and leaves the
  adapter as it was: its caches and the trace of its client are unchanged, so no request
  was made and nothing was checked.
\<close>

theorem HealthCheck_always_nil:
  "HealthCheck ctx s = (None, s)"
  by (simp add: HealthCheck_def)

text \<open>
  C10. \<open>GetTrending\<close> and \<open>GetRecent\<close> fail for every context and every adapter state with
  the error "not implemented"; no media list is returned (the result is the error alone)
  and the adapter is unchanged.
\<close>

theorem GetTrending_GetRecent_not_implemented:
  "GetTrending ctx s = (Inl (Errorf ''not implemented''), s) \<and>
   GetRecent ctx s = (Inl (Errorf ''not implemented''), s)"
  by (simp add: GetTrending_def GetRecent_def)

end
